theory Spec2Isabelle
  imports Main "HOL-Library.AList"
begin

section \<open>Lernify Road backend: a shallow embedding of main.py and schemas.py\<close>

text \<open>
  The request handlers of \<^verbatim>\<open>main.py\<close> are modelled as functions that take the document
  store and the validated request payload and return the new store together with either
  the raised \<^verbatim>\<open>HTTPException\<close> (\<open>Inl\<close>) or the response (\<open>Inr\<close>).  A collection is the
  list of its documents in insertion order; \<^verbatim>\<open>find_one\<close> returns the first match.
\<close>

subsection \<open>Errors\<close>

datatype HTTPException = HTTPException (status_code: int) (detail: string)

datatype error_kind =
  ValidationError | ConflictError | AuthError | ForbiddenError | NotFoundError | InternalError

text \<open>
  Modelled from the spec: the error kinds are the vocabulary of the specification (section 7);
  the code has none, it raises \<^verbatim>\<open>HTTPException(status_code, detail)\<close>.  Section 4 of the
  specification names the kind of each failure and section 6 lists the status codes.  The
  table follows section 4: the refusal of a qualification at registration (status 403 in the
  code) is a ValidationError and the step gate (status 403 as well) a ForbiddenError, a
  duplicate email (status 400) is a ConflictError, the other failures of status 400 are
  ValidationErrors, status 401 is an AuthError and status 404 a NotFoundError.  Status 422 is
  what the framework answers to a body that fails the constraints of its model.
\<close>

definition error_kind_of :: "HTTPException \<Rightarrow> error_kind" where
  "error_kind_of e =
     (if status_code e = 400 then
        (if detail e = ''Email already registered'' then ConflictError else ValidationError)
      else if status_code e = 401 then AuthError
      else if status_code e = 403 then
        (if detail e = ''Only IT-related students can register'' then ValidationError
         else ForbiddenError)
      else if status_code e = 404 then NotFoundError
      else if status_code e = 422 then ValidationError
      else InternalError)"

subsection \<open>Binary64 arithmetic of \<^verbatim>\<open>int(0.6 * total)\<close>\<close>

text \<open>
  Line 280 multiplies the float literal \<^verbatim>\<open>0.6\<close> by an integer and truncates the product.
  CPython converts the integer to binary64, multiplies in binary64 (IEEE 754, round to
  nearest, ties to even, 53 significant bits) and \<^verbatim>\<open>int()\<close> truncates towards zero.  All
  values here are non-negative multiples of \<open>2 ^ - 53\<close>, so a float is represented by its
  numerator over \<open>2 ^ 53\<close>; the literal \<^verbatim>\<open>0.6\<close> is the binary64 number
  \<open>5404319552844595 / 2 ^ 53\<close>.  The integer is the length of a list (below \<open>2 ^ 63\<close>), so
  neither overflow nor underflow occurs.
\<close>

fun bit_length :: "nat \<Rightarrow> nat" where
  "bit_length n = (if n = 0 then 0 else Suc (bit_length (n div 2)))"

declare bit_length.simps [simp del]

definition rne_div :: "nat \<Rightarrow> nat \<Rightarrow> nat" where
  \<comment> \<open>the quotient \<open>a / d\<close> rounded to the nearest integer, ties to even\<close>
  "rne_div a d =
     (let q = a div d; r = a mod d in
      if 2 * r < d then q
      else if d < 2 * r then q + 1
      else if even q then q else q + 1)"

definition round53 :: "nat \<Rightarrow> nat" where
  \<comment> \<open>the nearest number with at most 53 significant bits\<close>
  "round53 p = (let d = 2 ^ (bit_length p - 53) in rne_div p d * d)"

definition float_of_int :: "nat \<Rightarrow> nat" where
  \<comment> \<open>\<^verbatim>\<open>float(n)\<close>, as a numerator over \<open>2 ^ 53\<close>\<close>
  "float_of_int n = round53 n * 2 ^ 53"

definition float_0_6 :: nat where
  "float_0_6 = 5404319552844595"

definition float_mul :: "nat \<Rightarrow> nat \<Rightarrow> nat" where
  \<comment> \<open>the binary64 product of two numerators over \<open>2 ^ 53\<close>, of which the second is an integer\<close>
  "float_mul x y = round53 (x * (y div 2 ^ 53))"

definition int_of_float :: "nat \<Rightarrow> int" where
  \<comment> \<open>\<^verbatim>\<open>int(x)\<close>: truncation\<close>
  "int_of_float x = int (x div 2 ^ 53)"

subsection \<open>String conversions\<close>

definition digit_char :: "nat \<Rightarrow> char" where
  "digit_char d = ''0123456789abcdef'' ! d"

fun str_nat :: "nat \<Rightarrow> string" where
  "str_nat n = (if n < 10 then [digit_char n] else str_nat (n div 10) @ [digit_char (n mod 10)])"

declare str_nat.simps [simp del]

definition str_int :: "int \<Rightarrow> string" where
  \<comment> \<open>\<^verbatim>\<open>str(i)\<close> of a Python int, as the f-string of line 297 formats it\<close>
  "str_int i = (if i < 0 then CHR ''-'' # str_nat (nat (- i)) else str_nat (nat i))"

type_synonym ObjectId = nat

fun hex_nat :: "nat \<Rightarrow> string" where
  "hex_nat n = (if n < 16 then [digit_char n] else hex_nat (n div 16) @ [digit_char (n mod 16)])"

declare hex_nat.simps [simp del]

definition str_ObjectId :: "ObjectId \<Rightarrow> string" where
  \<comment> \<open>\<^verbatim>\<open>str(oid)\<close>: 24 lower-case hexadecimal digits\<close>
  "str_ObjectId oid = (let h = hex_nat oid in replicate (24 - length h) CHR ''0'' @ h)"

definition hex_value :: "char \<Rightarrow> nat option" where
  "hex_value c =
     (let k = of_char c :: nat in
      if 48 \<le> k \<and> k \<le> 57 then Some (k - 48)
      else if 97 \<le> k \<and> k \<le> 102 then Some (k - 87)
      else if 65 \<le> k \<and> k \<le> 70 then Some (k - 55)
      else None)"

fun parse_hex :: "nat \<Rightarrow> string \<Rightarrow> nat option" where
  "parse_hex acc [] = Some acc"
| "parse_hex acc (c # cs) =
     (case hex_value c of None \<Rightarrow> None | Some v \<Rightarrow> parse_hex (16 * acc + v) cs)"

definition ObjectId :: "string \<Rightarrow> ObjectId option" where
  \<comment> \<open>\<^verbatim>\<open>ObjectId(s)\<close> of the bson library: a string of 24 hexadecimal digits, or \<open>None\<close> where
      the constructor raises \<^verbatim>\<open>InvalidId\<close>\<close>
  "ObjectId s = (if length s = 24 then parse_hex 0 s else None)"

subsection \<open>schemas.py\<close>

definition ALLOWED_QUALIFICATIONS :: "string list" where
  "ALLOWED_QUALIFICATIONS =
     [''B.Tech CSE'', ''B.Tech IT'', ''B.Sc IT'', ''BCA'', ''MCA'', ''M.Sc CS'', ''Diploma in CS/IT'']"

text \<open>
  The request bodies (pydantic models), as the handlers receive them: the framework has
  built them from the JSON body and checked the constraints of the model, answering with
  status 422 when one fails.  The constraints of \<^verbatim>\<open>LoginRequest\<close> are written out in
  \<open>validate_LoginRequest\<close> below.
\<close>

record User =
  first_name :: string
  last_name :: string
  email :: string
  phone :: string
  qualification :: string
  password_hash :: string
  role :: string
  avatar_url :: "string option"

record LoginRequest =
  email :: string
  password :: string

record UpdateProfile =
  first_name :: string
  last_name :: string
  phone :: string
  qualification :: string
  avatar_url :: "string option"

record SubmitAssessment =
  user_id :: string
  domain :: string
  step_order :: int
  answers :: "int list"

text \<open>
  A question is a dictionary; \<open>answerIndex\<close> is what \<^verbatim>\<open>q.get("answerIndex")\<close> returns,
  \<open>None\<close> when the key is absent.
\<close>

record Question =
  q :: string
  options :: "string list"
  answerIndex :: "int option"

record RoadmapStep =
  order :: int
  title :: string
  description :: string
  videos :: "string list"
  questions :: "Question list"

subsection \<open>Stored documents\<close>

text \<open>
  A stored document is a dictionary: next to the fields of its model it has the key
  \<^verbatim>\<open>_id\<close> (here \<open>mongo_id\<close>) and, once \<^verbatim>\<open>to_str_id\<close> has run on it, the key \<^verbatim>\<open>id\<close> (here
  \<open>str_id\<close>).  A key that may be absent is an \<open>option\<close>, \<open>None\<close> when absent.
\<close>

record user_doc =
  mongo_id :: "ObjectId option"
  str_id :: "string option"
  first_name :: string
  last_name :: string
  email :: string
  phone :: string
  qualification :: string
  password_hash :: "string option"
  role :: string
  avatar_url :: "string option"

record roadmap_doc =
  mongo_id :: "ObjectId option"
  domain :: string
  steps :: "RoadmapStep list"

record Progress =
  mongo_id :: "ObjectId option"
  str_id :: "string option"
  user_id :: string
  domain :: string
  completed_steps :: "int list"
  scores :: "(string \<times> int) list"

record AssessmentResult =
  mongo_id :: "ObjectId option"
  user_id :: string
  domain :: string
  step_order :: int
  score :: int
  total :: int
  passed :: bool

record Database =
  user :: "user_doc list"
  roadmap :: "roadmap_doc list"
  progress :: "Progress list"
  assessmentresult :: "AssessmentResult list"

subsection \<open>The persistence gateway\<close>

text \<open>
  Modelled from the spec: \<^verbatim>\<open>database.py\<close>, which provides the handle \<^verbatim>\<open>db\<close>, is not among the
  sources.  Sections 2 and 4 of the specification describe it as a document store with
  collection-scoped find, insert and update operations.  Here \<^verbatim>\<open>find_one\<close> returns the first
  document of the collection that matches the filter, \<^verbatim>\<open>update_one\<close> changes the first
  match and nothing when there is none, and \<^verbatim>\<open>insert_one\<close> appends the document under an
  identifier new to the collection.
\<close>

definition find_one :: "('a \<Rightarrow> bool) \<Rightarrow> 'a list \<Rightarrow> 'a option" where
  "find_one flt coll = List.find flt coll"

fun update_one :: "('a \<Rightarrow> bool) \<Rightarrow> ('a \<Rightarrow> 'a) \<Rightarrow> 'a list \<Rightarrow> 'a list" where
  "update_one flt upd [] = []"
| "update_one flt upd (d # ds) = (if flt d then upd d # ds else d # update_one flt upd ds)"

definition new_ObjectId :: "ObjectId option list \<Rightarrow> ObjectId" where
  \<comment> \<open>\<^verbatim>\<open>insert_one\<close> gives the document an \<^verbatim>\<open>_id\<close> that no document of the collection has\<close>
  "new_ObjectId ids = Suc (foldr max (map (case_option 0 (\<lambda>i. i)) ids) 0)"

subsection \<open>Helpers (main.py, lines 30 to 37)\<close>

definition hash_password :: "(string \<Rightarrow> string) \<Rightarrow> string \<Rightarrow> string" where
  \<comment> \<open>the first argument stands for \<^verbatim>\<open>hashlib.sha256(...).hexdigest()\<close> on the encoded text\<close>
  "hash_password sha256_hexdigest plaintext = sha256_hexdigest plaintext"

definition to_str_id_user :: "user_doc option \<Rightarrow> user_doc option" where
  "to_str_id_user doc =
     (case doc of
        None \<Rightarrow> None
      | Some d \<Rightarrow>
          (case user_doc.mongo_id d of
             None \<Rightarrow> Some d
           | Some oid \<Rightarrow> Some (d\<lparr>user_doc.mongo_id := None, user_doc.str_id := Some (str_ObjectId oid)\<rparr>)))"

definition to_str_id_progress :: "Progress \<Rightarrow> Progress" where
  "to_str_id_progress d =
     (case Progress.mongo_id d of
        None \<Rightarrow> d
      | Some oid \<Rightarrow> d\<lparr>Progress.mongo_id := None, Progress.str_id := Some (str_ObjectId oid)\<rparr>)"

subsection \<open>Seed roadmaps (main.py, lines 43 to 113)\<close>

definition SEED_ROADMAPS :: "(string \<times> RoadmapStep list) list" where
  "SEED_ROADMAPS =
     [(''frontend'',
       [\<lparr>order = 1, title = ''HTML & CSS Basics'',
         description = ''Learn HTML structure and CSS styling.'',
         videos = [''https://www.youtube.com/watch?v=G3e-cpL7ofc'',
                   ''https://www.youtube.com/watch?v=mU6anWqZJcc''],
         questions =
          [\<lparr>q = ''What tag defines a hyperlink?'',
            options = [''<a>'', ''<link>'', ''<href>''],
            answerIndex = Some 0\<rparr>,
           \<lparr>q = ''Which property changes text color?'',
            options = [''font'', ''color'', ''text''],
            answerIndex = Some 1\<rparr>]\<rparr>,
        \<lparr>order = 2, title = ''JavaScript Fundamentals'',
         description = ''Variables, functions, DOM.'',
         videos = [''https://www.youtube.com/watch?v=PkZNo7MFNFg''],
         questions =
          [\<lparr>q = ''Which declares a block-scoped variable?'',
            options = [''var'', ''let'', ''function''],
            answerIndex = Some 1\<rparr>,
           \<lparr>q = ''DOM stands for?'',
            options = [''Document Object Model'', ''Data Object Method'', ''Display Object Map''],
            answerIndex = Some 0\<rparr>]\<rparr>,
        \<lparr>order = 3, title = ''React Basics'',
         description = ''Components, state, props.'',
         videos = [''https://www.youtube.com/watch?v=bMknfKXIFA8''],
         questions =
          [\<lparr>q = ''State is used to?'',
            options = [''Style components'', ''Manage dynamic data'', ''Route pages''],
            answerIndex = Some 1\<rparr>]\<rparr>]),
      (''backend'',
       [\<lparr>order = 1, title = ''Programming & Git'',
         description = ''Language basics and version control.'',
         videos = [''https://www.youtube.com/watch?v=SWYqp7iY_Tc''],
         questions =
          [\<lparr>q = ''git commit does?'',
            options = [''Send to remote'', ''Save snapshot'', ''Create branch''],
            answerIndex = Some 1\<rparr>]\<rparr>,
        \<lparr>order = 2, title = ''Node.js & Express'',
         description = ''APIs, routing, middleware.'',
         videos = [''https://www.youtube.com/watch?v=L72fhGm1tfE''],
         questions =
          [\<lparr>q = ''Express is?'',
            options = [''DB'', ''Framework'', ''Language''],
            answerIndex = Some 1\<rparr>]\<rparr>,
        \<lparr>order = 3, title = ''Databases'',
         description = ''SQL/NoSQL basics.'',
         videos = [''https://www.youtube.com/watch?v=E-1xI85Zog8''],
         questions =
          [\<lparr>q = ''NoSQL example?'',
            options = [''MongoDB'', ''MySQL'', ''PostgreSQL''],
            answerIndex = Some 0\<rparr>]\<rparr>]),
      (''ai-ml'',
       [\<lparr>order = 1, title = ''Python & Numpy'',
         description = ''Python essentials, arrays.'',
         videos = [''https://www.youtube.com/watch?v=_uQrJ0TkZlc''],
         questions =
          [\<lparr>q = ''Numpy is used for?'',
            options = [''Web'', ''Arrays & math'', ''OS''],
            answerIndex = Some 1\<rparr>]\<rparr>,
        \<lparr>order = 2, title = ''Pandas & Data'',
         description = ''Dataframes, cleaning.'',
         videos = [''https://www.youtube.com/watch?v=vmEHCJofslg''],
         questions =
          [\<lparr>q = ''Pandas DataFrame is?'',
            options = [''2D table'', ''1D list'', ''3D cube''],
            answerIndex = Some 0\<rparr>]\<rparr>,
        \<lparr>order = 3, title = ''ML Basics'',
         description = ''Supervised vs unsupervised.'',
         videos = [''https://www.youtube.com/watch?v=Gv9_4yMHFhI''],
         questions =
          [\<lparr>q = ''Supervised uses?'',
            options = [''Labels'', ''No data'', ''Only images''],
            answerIndex = Some 0\<rparr>]\<rparr>])]"

fun seed_items :: "(string \<times> RoadmapStep list) list \<Rightarrow> Database \<Rightarrow> Database" where
  "seed_items [] db = db"
| "seed_items ((dname, stps) # items) db =
     (let existing = find_one (\<lambda>d. roadmap_doc.domain d = dname) (roadmap db) in
      seed_items items
        (if existing = None then
           db\<lparr>roadmap := roadmap db @
             [\<lparr>roadmap_doc.mongo_id = Some (new_ObjectId (map roadmap_doc.mongo_id (roadmap db))),
               domain = dname, steps = stps\<rparr>]\<rparr>
         else db))"

definition ensure_roadmaps_seeded :: "Database option \<Rightarrow> Database option" where
  \<comment> \<open>\<open>None\<close> is \<^verbatim>\<open>db is None\<close>\<close>
  "ensure_roadmaps_seeded db =
     (case db of None \<Rightarrow> None | Some d \<Rightarrow> Some (seed_items SEED_ROADMAPS d))"

subsection \<open>Auth and profile (main.py, lines 147 to 220)\<close>

definition without_password_hash :: "user_doc \<Rightarrow> user_doc" where
  \<comment> \<open>the projection \<^verbatim>\<open>{"password_hash": 0}\<close>, and \<^verbatim>\<open>user.pop("password_hash", None)\<close>\<close>
  "without_password_hash d = d\<lparr>user_doc.password_hash := None\<rparr>"

definition register ::
  "(string \<Rightarrow> string) \<Rightarrow> Database \<Rightarrow> User \<Rightarrow> Database \<times> (HTTPException + user_doc option)" where
  "register sha256_hexdigest db usr =
     (if User.qualification usr \<notin> set ALLOWED_QUALIFICATIONS then
        (db, Inl (HTTPException 403 ''Only IT-related students can register''))
      else if find_one (\<lambda>d. user_doc.email d = User.email usr) (user db) \<noteq> None then
        (db, Inl (HTTPException 400 ''Email already registered''))
      else
        let doc = \<lparr>user_doc.mongo_id = None, str_id = None,
                   first_name = User.first_name usr, last_name = User.last_name usr,
                   email = User.email usr, phone = User.phone usr,
                   qualification = User.qualification usr,
                   password_hash = Some (hash_password sha256_hexdigest (User.password_hash usr)),
                   role = User.role usr, avatar_url = User.avatar_url usr\<rparr>;
            new_id = new_ObjectId (map user_doc.mongo_id (user db));
            db' = db\<lparr>user := user db @ [doc\<lparr>user_doc.mongo_id := Some new_id\<rparr>]\<rparr>;
            saved = map_option without_password_hash
                      (find_one (\<lambda>d. user_doc.mongo_id d = Some new_id) (user db'))
        in (db', Inr (to_str_id_user saved)))"

definition login ::
  "(string \<Rightarrow> string) \<Rightarrow> Database \<Rightarrow> LoginRequest \<Rightarrow> HTTPException + user_doc option" where
  "login sha256_hexdigest db payload =
     (case find_one (\<lambda>d. user_doc.email d = LoginRequest.email payload) (user db) of
        None \<Rightarrow> Inl (HTTPException 401 ''Invalid credentials'')
      | Some usr \<Rightarrow>
          if user_doc.password_hash usr \<noteq> Some (hash_password sha256_hexdigest (password payload))
          then Inl (HTTPException 401 ''Invalid credentials'')
          else Inr (to_str_id_user (Some (without_password_hash usr))))"

text \<open>
  \<^verbatim>\<open>POST /auth/login\<close>: the body is validated against \<^verbatim>\<open>LoginRequest\<close> (schemas.py, lines 34
  to 36) before \<^verbatim>\<open>login\<close> runs.  \<^verbatim>\<open>EmailStr\<close> belongs to the email-validator library and is
  a parameter: \<open>None\<close> where the address is refused, else the normalised address, which is
  what the handler receives.  \<^verbatim>\<open>constr(min_length=6)\<close> counts the characters of the
  password.  A body that fails is answered with status 422 and a list of the failed fields,
  which \<open>detail\<close> does not spell out.
\<close>

definition validate_LoginRequest ::
  "(string \<Rightarrow> string option) \<Rightarrow> LoginRequest \<Rightarrow> HTTPException + LoginRequest" where
  "validate_LoginRequest EmailStr body =
     (case EmailStr (LoginRequest.email body) of
        None \<Rightarrow> Inl (HTTPException 422 ''Unprocessable Entity'')
      | Some addr \<Rightarrow>
          if length (password body) < 6 then Inl (HTTPException 422 ''Unprocessable Entity'')
          else Inr (body\<lparr>LoginRequest.email := addr\<rparr>))"

definition auth_login ::
  "(string \<Rightarrow> string option) \<Rightarrow> (string \<Rightarrow> string) \<Rightarrow> Database \<Rightarrow> LoginRequest
     \<Rightarrow> HTTPException + user_doc option" where
  "auth_login EmailStr sha256_hexdigest db body =
     (case validate_LoginRequest EmailStr body of
        Inl e \<Rightarrow> Inl e
      | Inr payload \<Rightarrow> login sha256_hexdigest db payload)"

definition get_profile :: "Database \<Rightarrow> string \<Rightarrow> HTTPException + user_doc option" where
  "get_profile db uid =
     (case ObjectId uid of
        None \<Rightarrow> Inl (HTTPException 400 ''Invalid user id'')
      | Some oid \<Rightarrow>
          (case map_option without_password_hash
                  (find_one (\<lambda>d. user_doc.mongo_id d = Some oid) (user db)) of
             None \<Rightarrow> Inl (HTTPException 404 ''User not found'')
           | Some usr \<Rightarrow> Inr (to_str_id_user (Some usr))))"

definition set_profile :: "UpdateProfile \<Rightarrow> user_doc \<Rightarrow> user_doc" where
  \<comment> \<open>\<^verbatim>\<open>{"$set": updates}\<close> with the five keys of \<^verbatim>\<open>payload.model_dump()\<close>\<close>
  "set_profile updates d =
     d\<lparr>user_doc.first_name := UpdateProfile.first_name updates,
       user_doc.last_name := UpdateProfile.last_name updates,
       user_doc.phone := UpdateProfile.phone updates,
       user_doc.qualification := UpdateProfile.qualification updates,
       user_doc.avatar_url := UpdateProfile.avatar_url updates\<rparr>"

definition update_profile ::
  "Database \<Rightarrow> string \<Rightarrow> UpdateProfile \<Rightarrow> Database \<times> (HTTPException + user_doc option)" where
  "update_profile db uid payload =
     (case ObjectId uid of
        None \<Rightarrow> (db, Inl (HTTPException 400 ''Invalid user id''))
      | Some oid \<Rightarrow>
          if UpdateProfile.qualification payload \<notin> set ALLOWED_QUALIFICATIONS then
            (db, Inl (HTTPException 400 ''Invalid qualification''))
          else
            let db' = db\<lparr>user := update_one (\<lambda>d. user_doc.mongo_id d = Some oid)
                                     (set_profile payload) (user db)\<rparr>;
                usr = map_option without_password_hash
                        (find_one (\<lambda>d. user_doc.mongo_id d = Some oid) (user db'))
            in (db', Inr (to_str_id_user usr)))"

subsection \<open>Assessments and progress (main.py, lines 250 to 302)\<close>

definition find_or_insert_progress :: "Database \<Rightarrow> string \<Rightarrow> string \<Rightarrow> Database \<times> Progress" where
  \<comment> \<open>lines 252 to 255, and again lines 270 to 273; \<^verbatim>\<open>insert_one\<close> puts the new \<^verbatim>\<open>_id\<close> into
      the dictionary it is given\<close>
  "find_or_insert_progress db uid dname =
     (case find_one (\<lambda>p. Progress.user_id p = uid \<and> Progress.domain p = dname) (progress db) of
        Some prog \<Rightarrow> (db, prog)
      | None \<Rightarrow>
          let prog = \<lparr>Progress.mongo_id = Some (new_ObjectId (map Progress.mongo_id (progress db))),
                      str_id = None, user_id = uid, domain = dname,
                      completed_steps = [], scores = []\<rparr>
          in (db\<lparr>progress := progress db @ [prog]\<rparr>, prog))"

definition get_progress :: "Database \<Rightarrow> string \<Rightarrow> string \<Rightarrow> Database \<times> Progress" where
  "get_progress db uid dname =
     (case find_or_insert_progress db uid dname of (db', prog) \<Rightarrow> (db', to_str_id_progress prog))"

definition score_of :: "int list \<Rightarrow> int option list \<Rightarrow> int" where
  \<comment> \<open>line 278\<close>
  "score_of anss correct_indexes =
     sum_list (map (\<lambda>_. 1)
       (filter (\<lambda>(i, ans). i < length correct_indexes \<and> Some ans = correct_indexes ! i)
          (enumerate 0 anss)))"

definition passed_of :: "int \<Rightarrow> int \<Rightarrow> bool" where
  \<comment> \<open>line 280: \<^verbatim>\<open>score >= max(1, int(0.6 * total))\<close>\<close>
  "passed_of scr tot =
     (max 1 (int_of_float (float_mul float_0_6 (float_of_int (nat tot)))) \<le> scr)"

definition add_to_set :: "int \<Rightarrow> int list \<Rightarrow> int list" where
  \<comment> \<open>\<^verbatim>\<open>$addToSet\<close> on an array\<close>
  "add_to_set x xs = (if x \<in> set xs then xs else xs @ [x])"

definition record_pass :: "Database \<Rightarrow> string \<Rightarrow> string \<Rightarrow> int \<Rightarrow> int \<Rightarrow> Database" where
  \<comment> \<open>lines 293 to 300: \<^verbatim>\<open>update_one\<close> with \<^verbatim>\<open>upsert=True\<close>\<close>
  "record_pass db uid dname n scr =
     (let flt = (\<lambda>p. Progress.user_id p = uid \<and> Progress.domain p = dname) in
      if find_one flt (progress db) = None then
        db\<lparr>progress := progress db @
          [\<lparr>Progress.mongo_id = Some (new_ObjectId (map Progress.mongo_id (progress db))),
            str_id = None, user_id = uid, domain = dname,
            completed_steps = [n], scores = [(str_int n, scr)]\<rparr>]\<rparr>
      else
        db\<lparr>progress := update_one flt
          (\<lambda>p. p\<lparr>completed_steps := add_to_set n (completed_steps p),
                 scores := AList.update (str_int n) scr (scores p)\<rparr>)
          (progress db)\<rparr>)"

definition submit_assessment ::
  "Database \<Rightarrow> SubmitAssessment \<Rightarrow> Database \<times> (HTTPException + AssessmentResult \<times> string)" where
  "submit_assessment db payload =
     (case find_one (\<lambda>d. roadmap_doc.domain d = SubmitAssessment.domain payload) (roadmap db) of
        None \<Rightarrow> (db, Inl (HTTPException 404 ''Roadmap not found''))
      | Some rm \<Rightarrow>
     (case find_one (\<lambda>s. order s = SubmitAssessment.step_order payload) (steps rm) of
        None \<Rightarrow> (db, Inl (HTTPException 404 ''Step not found''))
      | Some step \<Rightarrow>
     (case find_or_insert_progress db (SubmitAssessment.user_id payload)
             (SubmitAssessment.domain payload) of
        (db1, prog) \<Rightarrow>
          if SubmitAssessment.step_order payload > 1
             \<and> SubmitAssessment.step_order payload - 1 \<notin> set (completed_steps prog)
          then (db1, Inl (HTTPException 403 ''Complete previous step first''))
          else
            let correct_indexes = map answerIndex (questions step);
                scr = score_of (answers payload) correct_indexes;
                tot = int (length correct_indexes);
                pss = passed_of scr tot;
                result = \<lparr>AssessmentResult.mongo_id =
                            Some (new_ObjectId (map AssessmentResult.mongo_id (assessmentresult db1))),
                          user_id = SubmitAssessment.user_id payload,
                          domain = SubmitAssessment.domain payload,
                          step_order = SubmitAssessment.step_order payload,
                          score = scr, total = tot, passed = pss\<rparr>;
                db2 = db1\<lparr>assessmentresult := assessmentresult db1 @ [result]\<rparr>;
                db3 = (if pss then
                         record_pass db2 (SubmitAssessment.user_id payload)
                           (SubmitAssessment.domain payload)
                           (SubmitAssessment.step_order payload) scr
                       else db2)
            in (db3, Inr (result, if pss then ''Passed'' else ''Failed'')))))"

subsection \<open>Observations used in the statements\<close>

definition find_step :: "Database \<Rightarrow> string \<Rightarrow> int \<Rightarrow> RoadmapStep option" where
  \<comment> \<open>the step that lines 261 to 265 resolve\<close>
  "find_step db dname n =
     (case find_one (\<lambda>d. roadmap_doc.domain d = dname) (roadmap db) of
        None \<Rightarrow> None
      | Some rm \<Rightarrow> find_one (\<lambda>s. order s = n) (steps rm))"

definition find_progress :: "Database \<Rightarrow> string \<Rightarrow> string \<Rightarrow> Progress option" where
  "find_progress db uid dname =
     find_one (\<lambda>p. Progress.user_id p = uid \<and> Progress.domain p = dname) (progress db)"

definition find_user_by_email :: "Database \<Rightarrow> string \<Rightarrow> user_doc option" where
  \<comment> \<open>the user that line 162 finds\<close>
  "find_user_by_email db addr = find_one (\<lambda>d. user_doc.email d = addr) (user db)"

definition completed_steps_of :: "Database \<Rightarrow> string \<Rightarrow> string \<Rightarrow> int list" where
  \<comment> \<open>\<^verbatim>\<open>completed_steps\<close> of the user's record in a domain, empty when none is stored\<close>
  "completed_steps_of db uid dname =
     (case find_progress db uid dname of None \<Rightarrow> [] | Some p \<Rightarrow> completed_steps p)"

definition scores_of :: "Database \<Rightarrow> string \<Rightarrow> string \<Rightarrow> (string \<times> int) list" where
  "scores_of db uid dname =
     (case find_progress db uid dname of None \<Rightarrow> [] | Some p \<Rightarrow> scores p)"

subsection \<open>A small store for the concrete instances\<close>

definition quiz_step :: RoadmapStep where
  "quiz_step =
     \<lparr>order = 1, title = ''Quiz'', description = ''Four questions.'', videos = [],
      questions =
        [\<lparr>q = ''a'', options = [''x'', ''y'', ''z''], answerIndex = Some 0\<rparr>,
         \<lparr>q = ''b'', options = [''x'', ''y'', ''z''], answerIndex = Some 1\<rparr>,
         \<lparr>q = ''c'', options = [''x'', ''y'', ''z''], answerIndex = Some 0\<rparr>,
         \<lparr>q = ''d'', options = [''x'', ''y'', ''z''], answerIndex = Some 2\<rparr>]\<rparr>"

definition single_step :: RoadmapStep where
  "single_step =
     \<lparr>order = 2, title = ''Single'', description = ''One question.'', videos = [],
      questions = [\<lparr>q = ''e'', options = [''x'', ''y''], answerIndex = Some 1\<rparr>]\<rparr>"

definition alice :: user_doc where
  "alice =
     \<lparr>user_doc.mongo_id = Some 7, str_id = None, first_name = ''Alice'', last_name = ''Doe'',
      email = ''alice@example.com'', phone = ''0123456789'', qualification = ''BCA'',
      password_hash = Some (rev ''secret1''), role = ''student'', avatar_url = None\<rparr>"

definition demo_db :: Database where
  "demo_db =
     \<lparr>user = [alice],
      roadmap = [\<lparr>roadmap_doc.mongo_id = Some 1, domain = ''demo'',
                  steps = [quiz_step, single_step]\<rparr>],
      progress = [], assessmentresult = []\<rparr>"

definition empty_db :: Database where
  "empty_db = \<lparr>user = [], roadmap = [], progress = [], assessmentresult = []\<rparr>"

definition quiz_payload :: SubmitAssessment where
  "quiz_payload = \<lparr>SubmitAssessment.user_id = ''u1'', domain = ''demo'', step_order = 1, answers = [0, 1, 1, 2, 9]\<rparr>"

definition quiz_result :: AssessmentResult where
  "quiz_result =
     \<lparr>AssessmentResult.mongo_id = Some 1, user_id = ''u1'', domain = ''demo'', step_order = 1,
      score = 3, total = 4, passed = True\<rparr>"

definition demo_db_graded :: Database where
  "demo_db_graded =
     demo_db\<lparr>progress :=
               [\<lparr>Progress.mongo_id = Some 1, str_id = None, user_id = ''u1'', domain = ''demo'',
                 completed_steps = [1], scores = [(''1'', 3)]\<rparr>],
             assessmentresult := [quiz_result]\<rparr>"

definition single_payload :: SubmitAssessment where
  "single_payload = \<lparr>SubmitAssessment.user_id = ''u1'', domain = ''demo'', step_order = 2, answers = [1]\<rparr>"

definition single_result :: AssessmentResult where
  "single_result =
     \<lparr>AssessmentResult.mongo_id = Some 2, user_id = ''u1'', domain = ''demo'', step_order = 2,
      score = 1, total = 1, passed = True\<rparr>"

definition demo_db_graded_twice :: Database where
  "demo_db_graded_twice =
     demo_db\<lparr>progress :=
               [\<lparr>Progress.mongo_id = Some 1, str_id = None, user_id = ''u1'', domain = ''demo'',
                 completed_steps = [1, 2], scores = [(''1'', 3), (''2'', 1)]\<rparr>],
             assessmentresult := [quiz_result, single_result]\<rparr>"

definition wrong_payload :: SubmitAssessment where
  "wrong_payload =
     \<lparr>SubmitAssessment.user_id = ''u1'', domain = ''demo'', step_order = 1, answers = [2, 2]\<rparr>"

definition wrong_result :: AssessmentResult where
  "wrong_result =
     \<lparr>AssessmentResult.mongo_id = Some 1, user_id = ''u1'', domain = ''demo'', step_order = 1,
      score = 0, total = 4, passed = False\<rparr>"

definition demo_db_failed :: Database where
  "demo_db_failed =
     demo_db\<lparr>progress :=
               [\<lparr>Progress.mongo_id = Some 1, str_id = None, user_id = ''u1'', domain = ''demo'',
                 completed_steps = [], scores = []\<rparr>],
             assessmentresult := [wrong_result]\<rparr>"

definition quiz_result_again :: AssessmentResult where
  "quiz_result_again =
     \<lparr>AssessmentResult.mongo_id = Some 2, user_id = ''u1'', domain = ''demo'', step_order = 1,
      score = 3, total = 4, passed = True\<rparr>"

definition demo_db_graded_again :: Database where
  "demo_db_graded_again = demo_db_graded\<lparr>assessmentresult := [quiz_result, quiz_result_again]\<rparr>"

definition carol_id :: string where
  "carol_id = ''0000000000000000000000ff''"

definition alice_id :: string where
  "alice_id = ''000000000000000000000007''"

definition new_profile :: UpdateProfile where
  "new_profile =
     \<lparr>UpdateProfile.first_name = ''Carol'', last_name = ''Roe'', phone = ''9876543210'',
      qualification = ''MCA'', avatar_url = None\<rparr>"

definition dave :: User where
  "dave =
     \<lparr>User.first_name = ''Dave'', last_name = ''Poe'', email = ''dave@example.com'',
      phone = ''1112223334'', qualification = ''B.Com'', password_hash = ''letmein1'',
      role = ''student'', avatar_url = None\<rparr>"

definition bob :: User where
  "bob =
     \<lparr>User.first_name = ''Bob'', last_name = ''Moe'', email = ''bob@example.com'',
      phone = ''5556667778'', qualification = ''MCA'', password_hash = ''hunter22'',
      role = ''student'', avatar_url = None\<rparr>"

definition bob_doc :: user_doc where
  "bob_doc =
     \<lparr>user_doc.mongo_id = Some 8, str_id = None, first_name = ''Bob'', last_name = ''Moe'',
      email = ''bob@example.com'', phone = ''5556667778'', qualification = ''MCA'',
      password_hash = Some (rev ''hunter22''), role = ''student'', avatar_url = None\<rparr>"

definition bob_response :: user_doc where
  "bob_response =
     \<lparr>user_doc.mongo_id = None, str_id = Some ''000000000000000000000008'',
      first_name = ''Bob'', last_name = ''Moe'',
      email = ''bob@example.com'', phone = ''5556667778'', qualification = ''MCA'',
      password_hash = None, role = ''student'', avatar_url = None\<rparr>"

definition alice_response :: user_doc where
  "alice_response =
     \<lparr>user_doc.mongo_id = None, str_id = Some ''000000000000000000000007'',
      first_name = ''Alice'', last_name = ''Doe'',
      email = ''alice@example.com'', phone = ''0123456789'', qualification = ''BCA'',
      password_hash = None, role = ''student'', avatar_url = None\<rparr>"

definition carol_response :: user_doc where
  "carol_response =
     \<lparr>user_doc.mongo_id = None, str_id = Some ''000000000000000000000007'',
      first_name = ''Carol'', last_name = ''Roe'',
      email = ''alice@example.com'', phone = ''9876543210'', qualification = ''MCA'',
      password_hash = None, role = ''student'', avatar_url = None\<rparr>"

definition alice_login :: LoginRequest where
  "alice_login = \<lparr>LoginRequest.email = ''alice@example.com'', password = ''secret1''\<rparr>"

definition alice_wrong_login :: LoginRequest where
  "alice_wrong_login = \<lparr>LoginRequest.email = ''alice@example.com'', password = ''secret2''\<rparr>"

definition nobody_login :: LoginRequest where
  "nobody_login = \<lparr>LoginRequest.email = ''nobody@example.com'', password = ''secret1''\<rparr>"

definition alice_updated :: user_doc where
  "alice_updated =
     \<lparr>user_doc.mongo_id = Some 7, str_id = None, first_name = ''Carol'', last_name = ''Roe'',
      email = ''alice@example.com'', phone = ''9876543210'', qualification = ''MCA'',
      password_hash = Some (rev ''secret1''), role = ''student'', avatar_url = None\<rparr>"

definition eve :: User where
  "eve =
     \<lparr>User.first_name = ''Eve'', last_name = ''Low'', email = ''eve@example.com'',
      phone = ''2223334445'', qualification = ''BCA'', password_hash = ''abc'',
      role = ''student'', avatar_url = None\<rparr>"

definition eve_doc :: user_doc where
  "eve_doc =
     \<lparr>user_doc.mongo_id = Some 8, str_id = None, first_name = ''Eve'', last_name = ''Low'',
      email = ''eve@example.com'', phone = ''2223334445'', qualification = ''BCA'',
      password_hash = Some (rev ''abc''), role = ''student'', avatar_url = None\<rparr>"

definition eve_response :: user_doc where
  "eve_response =
     \<lparr>user_doc.mongo_id = None, str_id = Some ''000000000000000000000008'',
      first_name = ''Eve'', last_name = ''Low'',
      email = ''eve@example.com'', phone = ''2223334445'', qualification = ''BCA'',
      password_hash = None, role = ''student'', avatar_url = None\<rparr>"

definition demo_db_eve :: Database where
  "demo_db_eve = demo_db\<lparr>user := [alice, eve_doc]\<rparr>"

definition eve_login :: LoginRequest where
  "eve_login = \<lparr>LoginRequest.email = ''eve@example.com'', password = ''abc''\<rparr>"

definition domains_of :: "Database \<Rightarrow> string set" where
  "domains_of db = set (map roadmap_doc.domain (roadmap db))"

section \<open>Properties\<close>

subsection \<open>Rounding to 53 bits\<close>

lemma bit_length_0: "bit_length 0 = 0"
  by (simp add: bit_length.simps)

lemma bit_length_Suc_0: "bit_length (Suc 0) = 1"
  by (simp add: bit_length.simps)

lemma bit_length_1: "bit_length 1 = 1"
  by (simp add: bit_length.simps)

lemma bit_length_Bit0: "bit_length (numeral (Num.Bit0 k)) = Suc (bit_length (numeral k))"
  by (subst bit_length.simps) simp

lemma bit_length_Bit1: "bit_length (numeral (Num.Bit1 k)) = Suc (bit_length (numeral k))"
  by (subst bit_length.simps) simp

lemmas bit_length_numeral =
  bit_length_0 bit_length_Suc_0 bit_length_1 bit_length_Bit0 bit_length_Bit1

lemma bit_length_gt: "n < 2 ^ bit_length n"
proof (induction n rule: bit_length.induct)
  case (1 n)
  show ?case
  proof (cases "n = 0")
    case True
    then show ?thesis by (simp add: bit_length_0)
  next
    case False
    with 1 have "n div 2 < 2 ^ bit_length (n div 2)" by simp
    moreover have "bit_length n = Suc (bit_length (n div 2))"
      using False by (subst bit_length.simps) simp
    ultimately show ?thesis by simp
  qed
qed

lemma bit_length_le: "n < 2 ^ k \<Longrightarrow> bit_length n \<le> k"
proof (induction n arbitrary: k rule: bit_length.induct)
  case (1 n)
  show ?case
  proof (cases "n = 0")
    case True
    then show ?thesis by (simp add: bit_length_0)
  next
    case False
    then obtain j where k: "k = Suc j" using "1.prems" by (cases k) auto
    have "n div 2 < 2 ^ j" using "1.prems" k by auto
    with 1 False have "bit_length (n div 2) \<le> j" by simp
    moreover have "bit_length n = Suc (bit_length (n div 2))"
      using False by (subst bit_length.simps) simp
    ultimately show ?thesis using k by simp
  qed
qed

lemma rne_div_lower: "0 < d \<Longrightarrow> c * d \<le> a \<Longrightarrow> c \<le> rne_div a d"
proof -
  assume d: "0 < d" and le: "c * d \<le> a"
  have "c \<le> a div d" using le d by (simp add: less_eq_div_iff_mult_less_eq)
  then show ?thesis by (auto simp: rne_div_def Let_def)
qed

lemma rne_div_exact: "0 < d \<Longrightarrow> rne_div (c * d) d = c"
  by (simp add: rne_div_def Let_def)

lemma rne_div_upper: "0 < d \<Longrightarrow> a \<le> c * d \<Longrightarrow> rne_div a d \<le> c"
proof -
  assume d: "0 < d" and le: "a \<le> c * d"
  show ?thesis
  proof (cases "a = c * d")
    case True
    then show ?thesis using d by (simp add: rne_div_exact)
  next
    case False
    then have "a < c * d" using le by simp
    then have "a div d < c" using d by (simp add: div_less_iff_less_mult)
    then show ?thesis by (auto simp: rne_div_def Let_def)
  qed
qed

lemma rne_div_near:
  assumes d: "0 < d" and eq: "a + k = c * d" and k: "2 * k < d"
  shows "rne_div a d = c"
proof (cases "k = 0")
  case True
  then show ?thesis using eq d by (simp add: rne_div_exact)
next
  case False
  then obtain c' where c: "c = Suc c'" using eq d k by (cases c) auto
  have a: "a = c' * d + (d - k)" using eq c k by simp
  have "d - k < d" using False d by simp
  then have "a div d = c'" "a mod d = d - k" using a by simp_all
  moreover have "d < 2 * (d - k)" using k by simp
  ultimately show ?thesis using c by (simp add: rne_div_def Let_def)
qed

lemma round53_small: "n < 2 ^ 53 \<Longrightarrow> round53 n = n"
proof -
  assume "n < 2 ^ 53"
  then have "bit_length n \<le> 53" by (rule bit_length_le)
  then show ?thesis by (simp add: round53_def rne_div_def Let_def)
qed

text \<open>
  Below 7505999378950828 the binary64 product \<^verbatim>\<open>0.6 * n\<close>, truncated, is the exact
  \<open>(3 * n) div 5\<close>: the literal is \<open>(3 * 2 ^ 53 - 1) / (5 * 2 ^ 53)\<close>, so the exact product
  lies \<open>n / (5 * 2 ^ 53)\<close> below \<open>3 * n / 5\<close>, and rounding does not cross an integer.  Up to
  7505999378950826 the product is below \<open>2 ^ 52\<close>, where neighbouring floats are at most a half
  apart; 7505999378950827 is computed.
\<close>

lemma bit_length_ge: "bit_length n = Suc k \<Longrightarrow> 2 ^ k \<le> n"
proof (induction n arbitrary: k rule: bit_length.induct)
  case (1 n)
  show ?case
  proof (cases "n = 0")
    case True
    with "1.prems" show ?thesis by (simp add: bit_length_0)
  next
    case False
    then have bl: "bit_length n = Suc (bit_length (n div 2))"
      by (subst bit_length.simps) simp
    with "1.prems" have k: "bit_length (n div 2) = k" by simp
    show ?thesis
    proof (cases k)
      case 0
      with False show ?thesis by simp
    next
      case (Suc j)
      with k 1 False have "2 ^ j \<le> n div 2" by simp
      with Suc show ?thesis by simp
    qed
  qed
qed

lemma rne_div_below_half: "0 < d \<Longrightarrow> 2 * a < (2 * c + 1) * d \<Longrightarrow> rne_div a d \<le> c"
proof -
  assume d: "0 < d" and lt: "2 * a < (2 * c + 1) * d"
  have "a < Suc c * d" using lt d by simp
  then have "a div d < Suc c" using d by (simp only: div_less_iff_less_mult)
  then have le: "a div d \<le> c" by simp
  show ?thesis
  proof (cases "a div d = c")
    case True
    have "a = c * d + a mod d" using True by (metis div_mult_mod_eq)
    with lt have "2 * (a mod d) < d" by (simp add: algebra_simps)
    then show ?thesis using True by (simp add: rne_div_def Let_def)
  next
    case False
    with le have "a div d < c" by simp
    then show ?thesis by (auto simp: rne_div_def Let_def)
  qed
qed

lemma float_0_6_mul_last:
  "round53 (5404319552844595 * 7505999378950827) div 2 ^ 53 = (3 * 7505999378950827) div 5"
  by (simp add: round53_def rne_div_def bit_length_numeral Let_def)

lemma float_0_6_mul_exact:
  assumes n: "n < 7505999378950828"
  shows "round53 (5404319552844595 * n) div 2 ^ 53 = (3 * n) div 5"
proof (cases "n = 7505999378950827")
  case True
  then show ?thesis by (simp only: float_0_6_mul_last)
next
  case False
  with n have n': "n \<le> 7505999378950826" by simp
  define p where "p = 5404319552844595 * n"
  define s where "s = bit_length p - 53"
  define d where "d = (2::nat) ^ s"
  define e where "e = (2::nat) ^ (53 - s)"
  define q where "q = (3 * n) div 5"
  define r where "r = (3 * n) mod 5"
  have qr: "3 * n = 5 * q + r" and r: "r < 5" by (simp_all add: q_def r_def)
  have eq: "5 * p + n = (5 * q + r) * 9007199254740992"
    unfolding qr [symmetric] p_def by simp
  have "p \<le> 5404319552844595 * 7505999378950826" unfolding p_def using n' by simp
  then have "p < 2 ^ 105" by simp
  then have bl: "bit_length p \<le> 105" by (rule bit_length_le)
  then have s: "s \<le> 52" by (simp add: s_def)
  have d_pos: "0 < d" by (simp add: d_def)
  have "d \<le> 2 ^ 52" unfolding d_def using s by (intro power_increasing) simp_all
  then have d_le: "d \<le> 4503599627370496" by simp
  have "e * d = 2 ^ (53 - s + s)" unfolding e_def d_def by (simp only: power_add)
  then have de: "e * d = 9007199254740992" using s by simp
  have "p < 2 ^ bit_length p" by (rule bit_length_gt)
  also have "(2::nat) ^ bit_length p \<le> 2 ^ (s + 53)"
    by (intro power_increasing) (simp_all add: s_def)
  also have "(2::nat) ^ (s + 53) = d * 9007199254740992" by (simp add: d_def power_add)
  finally have p_d: "p < d * 9007199254740992" .
  have d_p: "d = 1 \<or> d * 4503599627370496 \<le> p"
  proof (cases "s = 0")
    case True
    then show ?thesis by (simp add: d_def)
  next
    case False
    then have "bit_length p = Suc (s + 52)" by (simp add: s_def)
    then have "2 ^ (s + 52) \<le> p" by (rule bit_length_ge)
    then show ?thesis by (simp add: d_def power_add)
  qed
  have r53: "round53 p = rne_div p d * d" by (simp add: round53_def s_def d_def Let_def)
  have lower: "q * 9007199254740992 \<le> round53 p"
  proof (cases "r = 0")
    case True
    with qr have "\<exists>k. n = 5 * k \<and> q = 3 * k" by presburger
    then obtain k where k: "n = 5 * k" "q = 3 * k" by blast
    have pk: "p + k = (q * e) * d" using eq True k by (simp add: de mult.assoc)
    have "2 * k < d"
    proof (rule ccontr)
      assume "\<not> 2 * k < d"
      then have "d * 9007199254740992 \<le> 2 * k * 9007199254740992" by simp
      with p_d pk k show False by (simp add: de mult.assoc)
    qed
    with d_pos pk have "rne_div p d = q * e" by (rule rne_div_near)
    then show ?thesis by (simp add: r53 de mult.assoc)
  next
    case False
    then have "(q * e) * d \<le> p" using eq n' by (simp add: de mult.assoc)
    with d_pos have "q * e \<le> rne_div p d" by (rule rne_div_lower)
    then have "(q * e) * d \<le> rne_div p d * d" by simp
    then show ?thesis by (simp add: r53 de mult.assoc)
  qed
  have e_pos: "0 < e" by (simp add: e_def)
  have d5: "5 * d < 18014398509481984 + 2 * n"
  proof (cases "n \<le> 2251799813685248")
    case True
    from d_p show ?thesis
    proof
      assume "d = 1" then show ?thesis by simp
    next
      assume "d * 4503599627370496 \<le> p"
      then have "5 * (d * 4503599627370496) \<le> 5 * p" by simp
      also have "5 * p \<le> 3 * n * 9007199254740992" using eq qr by simp
      finally have "5 * d \<le> 6 * n" by simp
      with True show ?thesis by simp
    qed
  next
    case False
    with d_le show ?thesis by simp
  qed
  define c where "c = Suc q * e - 1"
  have "Suc c = Suc q * e" using e_pos by (simp add: c_def)
  then have "Suc c * d = Suc q * (e * d)" by (simp only: mult.assoc)
  then have cd: "c * d + d = Suc q * 9007199254740992" by (simp add: de)
  have "10 * p + 5 * d < 10 * (Suc q * 9007199254740992)"
    using eq r d5 by simp
  then have "2 * p + d < 2 * (c * d + d)" by (simp add: cd)
  then have "2 * p < (2 * c + 1) * d" by (simp add: algebra_simps)
  with d_pos have "rne_div p d \<le> c" by (rule rne_div_below_half)
  then have "rne_div p d * d \<le> c * d" by simp
  also have "\<dots> < c * d + d" using d_pos by simp
  finally have upper: "round53 p < 9007199254740992 * Suc q"
    by (simp only: cd r53 mult.commute)
  from lower have "9007199254740992 * q \<le> round53 p" by (simp add: mult.commute)
  then have "round53 p div 9007199254740992 = q" using upper by (rule div_nat_eqI)
  then show ?thesis by (simp add: p_def q_def)
qed

lemma passed_of_exact:
  assumes "0 \<le> tot" and "tot < 7505999378950828"
  shows "passed_of scr tot = (max 1 ((6 * tot) div 10) \<le> scr)"
proof -
  define n where "n = nat tot"
  have n: "n < 7505999378950828" and tot: "tot = int n" using assms by (simp_all add: n_def)
  then have "n < 2 ^ 53" by simp
  then have "float_of_int n = n * 2 ^ 53" by (simp add: float_of_int_def round53_small)
  then have "int_of_float (float_mul float_0_6 (float_of_int n)) = int ((3 * n) div 5)"
    using float_0_6_mul_exact [OF n] by (simp add: int_of_float_def float_mul_def float_0_6_def)
  moreover have "(6 * tot) div 10 = int ((3 * n) div 5)"
    unfolding tot by (simp add: zdiv_int)
  ultimately show ?thesis by (simp add: passed_of_def n_def)
qed

subsection \<open>The persistence gateway\<close>

lemma find_one_append:
  "find_one P (xs @ ys) = (case find_one P xs of None \<Rightarrow> find_one P ys | Some x \<Rightarrow> Some x)"
  by (induction xs) (simp_all add: find_one_def)

lemma find_one_None_iff: "find_one P xs = None \<longleftrightarrow> (\<forall>x\<in>set xs. \<not> P x)"
  by (auto simp: find_one_def find_None_iff)

lemma find_one_Some_D: "find_one P xs = Some x \<Longrightarrow> x \<in> set xs \<and> P x"
  by (auto simp: find_one_def find_Some_iff)

lemma update_one_no_match: "find_one P xs = None \<Longrightarrow> update_one P f xs = xs"
  by (induction xs) (auto simp: find_one_def split: if_splits)

lemma find_one_update_one:
  "(\<And>x. P x \<Longrightarrow> P (f x)) \<Longrightarrow> find_one P (update_one P f xs) = map_option f (find_one P xs)"
  by (induction xs) (auto simp: find_one_def)

subsection \<open>Grading\<close>

lemma score_of_card:
  "score_of anss ci = int (card {i. i < length ci \<and> i < length anss \<and> Some (anss ! i) = ci ! i})"
proof -
  let ?P = "\<lambda>(i, ans). i < length ci \<and> Some ans = ci ! i"
  have "score_of anss ci = int (length (filter ?P (enumerate 0 anss)))"
    by (simp add: score_of_def sum_list_triv)
  also have "length (filter ?P (enumerate 0 anss)) =
      card {i. i < length (enumerate 0 anss) \<and> ?P (enumerate 0 anss ! i)}"
    by (rule length_filter_conv_card)
  also have "{i. i < length (enumerate 0 anss) \<and> ?P (enumerate 0 anss ! i)} =
      {i. i < length ci \<and> i < length anss \<and> Some (anss ! i) = ci ! i}"
    by (auto simp: nth_enumerate_eq)
  finally show ?thesis .
qed

lemma submit_assessment_graded:
  assumes "submit_assessment db payload = (db', Inr (res, msg))"
  obtains step db1 prog where
    "find_step db (SubmitAssessment.domain payload) (SubmitAssessment.step_order payload) = Some step"
    "find_or_insert_progress db (SubmitAssessment.user_id payload) (SubmitAssessment.domain payload)
       = (db1, prog)"
    "SubmitAssessment.step_order payload \<le> 1
       \<or> SubmitAssessment.step_order payload - 1 \<in> set (completed_steps prog)"
    "AssessmentResult.mongo_id res =
       Some (new_ObjectId (map AssessmentResult.mongo_id (assessmentresult db1)))"
    "AssessmentResult.user_id res = SubmitAssessment.user_id payload"
    "AssessmentResult.domain res = SubmitAssessment.domain payload"
    "AssessmentResult.step_order res = SubmitAssessment.step_order payload"
    "score res = score_of (answers payload) (map answerIndex (questions step))"
    "total res = int (length (questions step))"
    "passed res = passed_of (score res) (total res)"
    "db' = (if passed res then
              record_pass (db1\<lparr>assessmentresult := assessmentresult db1 @ [res]\<rparr>)
                (SubmitAssessment.user_id payload) (SubmitAssessment.domain payload)
                (SubmitAssessment.step_order payload) (score res)
            else db1\<lparr>assessmentresult := assessmentresult db1 @ [res]\<rparr>)"
    "msg = (if passed res then ''Passed'' else ''Failed'')"
  using assms unfolding submit_assessment_def find_step_def
  by (auto simp: Let_def split: option.splits prod.splits if_splits)

lemma str_nat_digit: "n < 10 \<Longrightarrow> str_nat n = [digit_char n]"
  by (subst str_nat.simps) simp

lemmas float_eval =
  passed_of_def int_of_float_def float_mul_def float_of_int_def float_0_6_def round53_def
  rne_div_def bit_length_numeral Let_def

lemma passed_of_3_4: "passed_of 3 4"
  by (simp add: float_eval)

lemma score_of_quiz: "score_of [0, 1, 1, 2, 9] [Some 0, Some 1, Some 0, Some 2] = 3"
  by (simp add: score_of_def enumerate_eq_zip upt_rec)

lemma demo_submit:
  "submit_assessment demo_db quiz_payload = (demo_db_graded, Inr (quiz_result, ''Passed''))"
  by (simp add: submit_assessment_def demo_db_def quiz_payload_def quiz_step_def single_step_def
      find_one_def find_or_insert_progress_def new_ObjectId_def Let_def score_of_quiz passed_of_3_4
      record_pass_def add_to_set_def str_int_def str_nat_digit digit_char_def
      demo_db_graded_def quiz_result_def)

lemma passed_of_1_1: "passed_of 1 1"
  by (simp add: float_eval)

lemma demo_submit_single:
  "submit_assessment demo_db_graded single_payload
     = (demo_db_graded_twice, Inr (single_result, ''Passed''))"
  by (simp add: submit_assessment_def demo_db_graded_def demo_db_def single_payload_def
      quiz_step_def single_step_def quiz_result_def
      find_one_def find_or_insert_progress_def new_ObjectId_def Let_def score_of_def
      enumerate_eq_zip passed_of_1_1
      record_pass_def add_to_set_def str_int_def str_nat_digit digit_char_def
      demo_db_graded_twice_def single_result_def)

subsection \<open>Claims about grading\<close>

text \<open>
  Claim C1.  Whenever a submission is graded (it passed the step gate and a result is
  returned), the score is the number of positions \<open>i\<close> below the number of questions of the
  resolved step at which the submitted list has an element and that element equals the
  question's \<open>answerIndex\<close>.  Answers beyond the question count do not contribute: the score
  is that of the submission cut to the number of questions.  The reported total is the number
  of questions of the step.
\<close>

theorem score_counts_matching_positions:
  assumes "submit_assessment db payload = (db', Inr (res, msg))"
  shows "\<exists>step. find_step db (SubmitAssessment.domain payload) (SubmitAssessment.step_order payload)
                  = Some step
           \<and> score res = int (card {i. i < length (questions step) \<and> i < length (answers payload)
                                       \<and> Some (answers payload ! i) = answerIndex (questions step ! i)})
           \<and> score res = score_of (take (length (questions step)) (answers payload))
                            (map answerIndex (questions step))
           \<and> total res = int (length (questions step))"
proof -
  from assms obtain step where
    step: "find_step db (SubmitAssessment.domain payload) (SubmitAssessment.step_order payload)
             = Some step"
    and res: "score res = score_of (answers payload) (map answerIndex (questions step))"
             "total res = int (length (questions step))"
    by (rule submit_assessment_graded) (rule that)
  let ?ci = "map answerIndex (questions step)"
  have card: "score_of (answers payload) ?ci =
      int (card {i. i < length (questions step) \<and> i < length (answers payload)
                   \<and> Some (answers payload ! i) = answerIndex (questions step ! i)})"
    unfolding score_of_card by (rule arg_cong [where f = "\<lambda>S. int (card S)"]) auto
  have "score_of (take (length (questions step)) (answers payload)) ?ci =
      score_of (answers payload) ?ci"
    unfolding score_of_card by (rule arg_cong [where f = "\<lambda>S. int (card S)"]) auto
  with step res card show ?thesis by simp
qed

text \<open>The example of the specification: key \<open>[0, 1, 0, 2]\<close>, one surplus answer.\<close>

theorem score_counts_matching_positions_witness:
  "submit_assessment demo_db quiz_payload = (demo_db_graded, Inr (quiz_result, ''Passed''))
   \<and> (\<exists>step. find_step demo_db (SubmitAssessment.domain quiz_payload)
                 (SubmitAssessment.step_order quiz_payload) = Some step
           \<and> score quiz_result =
               int (card {i. i < length (questions step) \<and> i < length (answers quiz_payload)
                             \<and> Some (answers quiz_payload ! i) = answerIndex (questions step ! i)})
           \<and> score quiz_result = score_of (take (length (questions step)) (answers quiz_payload))
                                     (map answerIndex (questions step))
           \<and> total quiz_result = int (length (questions step)))"
  using demo_submit score_counts_matching_positions [OF demo_submit] by (rule conjI)

lemma score_of_le: "score_of anss ci \<le> int (length ci)"
proof -
  have "card {i. i < length ci \<and> i < length anss \<and> Some (anss ! i) = ci ! i} \<le> card {..<length ci}"
    by (rule card_mono) auto
  then show ?thesis by (simp add: score_of_card)
qed

text \<open>
  Claim C2.  For every graded submission the pass flag is true exactly when the score is at
  least \<open>max 1 (6 * total div 10)\<close>, the exact \<open>max(1, floor(0.6 * total))\<close>; a step of one
  question passes exactly when its answer is right; the message is \<^verbatim>\<open>Passed\<close> or
  \<^verbatim>\<open>Failed\<close> accordingly.  Line 280 computes the threshold in binary64, which gives the
  exact value for every total below 7505999378950828.  The total is the length of a list of
  questions held in memory, and no list the interpreter can hold comes near that length (its
  element pointers alone would take more than \<open>2 ^ 55\<close> bytes), so the bound excludes no submission.
\<close>

theorem pass_flag_exact:
  assumes "submit_assessment db payload = (db', Inr (res, msg))"
    and "total res < 7505999378950828"
  shows "passed res = (max 1 ((6 * total res) div 10) \<le> score res)
         \<and> (total res = 1 \<longrightarrow> passed res = (score res = 1))
         \<and> msg = (if passed res then ''Passed'' else ''Failed'')"
proof -
  from assms(1) obtain step :: RoadmapStep where
    res: "score res = score_of (answers payload) (map answerIndex (questions step))"
         "total res = int (length (questions step))"
         "passed res = passed_of (score res) (total res)"
    and msg: "msg = (if passed res then ''Passed'' else ''Failed'')"
    by (rule submit_assessment_graded) (rule that)
  have "0 \<le> total res" using res by simp
  then have p: "passed res = (max 1 ((6 * total res) div 10) \<le> score res)"
    using assms(2) res(3) by (simp add: passed_of_exact)
  have "score res \<le> total res"
    using score_of_le [of "answers payload" "map answerIndex (questions step)"] res by simp
  with p have "total res = 1 \<longrightarrow> passed res = (score res = 1)" by auto
  with p msg show ?thesis by simp
qed

theorem pass_flag_exact_witness:
  "submit_assessment demo_db_graded single_payload
     = (demo_db_graded_twice, Inr (single_result, ''Passed''))
   \<and> total single_result < 7505999378950828
   \<and> passed single_result = (max 1 ((6 * total single_result) div 10) \<le> score single_result)
   \<and> total single_result = 1
   \<and> passed single_result = (score single_result = 1)
   \<and> ''Passed'' = (if passed single_result then ''Passed'' else ''Failed'')"
proof -
  have small: "total single_result < 7505999378950828" and one: "total single_result = 1"
    by (simp_all add: single_result_def)
  from demo_submit_single small one pass_flag_exact [OF demo_submit_single small]
  show ?thesis by blast
qed

text \<open>
  The bound is the least number at which binary64 departs from the exact threshold: for
  7505999378950828 the exact threshold is \<open>2 ^ 52\<close>, and the binary64 product rounds up to
  \<open>2 ^ 52 + 1\<close>.
\<close>

lemma passed_of_bound_sharp:
  "\<not> (passed_of 4503599627370496 7505999378950828
        = (max 1 ((6 * 7505999378950828) div 10) \<le> (4503599627370496::int)))"
  by (simp add: float_eval)

subsection \<open>Progress records\<close>

lemma find_one_Nil: "find_one P [] = None"
  by (simp add: find_one_def)

lemma find_one_Cons: "find_one P (x # xs) = (if P x then Some x else find_one P xs)"
  by (simp add: find_one_def)

lemma find_or_insert_progress_found:
  assumes "find_progress db uid dname = Some p"
  shows "find_or_insert_progress db uid dname = (db, p)"
  using assms by (simp add: find_or_insert_progress_def find_progress_def)

lemma find_or_insert_progress_new:
  assumes "find_progress db uid dname = None"
  shows "find_or_insert_progress db uid dname =
     (db\<lparr>progress := progress db @
          [\<lparr>Progress.mongo_id = Some (new_ObjectId (map Progress.mongo_id (progress db))),
            str_id = None, user_id = uid, domain = dname, completed_steps = [], scores = []\<rparr>]\<rparr>,
      \<lparr>Progress.mongo_id = Some (new_ObjectId (map Progress.mongo_id (progress db))),
       str_id = None, user_id = uid, domain = dname, completed_steps = [], scores = []\<rparr>)"
  using assms by (simp add: find_or_insert_progress_def find_progress_def Let_def)

lemma find_or_insert_progress_props:
  assumes "find_or_insert_progress db uid dname = (db1, prog)"
  shows "find_progress db1 uid dname = Some prog"
    and "completed_steps prog = completed_steps_of db uid dname"
    and "scores prog = scores_of db uid dname"
    and "completed_steps_of db1 u d = completed_steps_of db u d"
    and "scores_of db1 u d = scores_of db u d"
    and "user db1 = user db"
    and "roadmap db1 = roadmap db"
    and "assessmentresult db1 = assessmentresult db"
proof -
  show "find_progress db1 uid dname = Some prog"
    using assms
    by (cases "find_progress db uid dname")
      (auto simp: find_or_insert_progress_new find_or_insert_progress_found
        find_progress_def find_one_append find_one_Nil find_one_Cons)
  show "completed_steps prog = completed_steps_of db uid dname"
    using assms
    by (cases "find_progress db uid dname")
      (auto simp: find_or_insert_progress_new find_or_insert_progress_found completed_steps_of_def)
  show "scores prog = scores_of db uid dname"
    using assms
    by (cases "find_progress db uid dname")
      (auto simp: find_or_insert_progress_new find_or_insert_progress_found scores_of_def)
  show "completed_steps_of db1 u d = completed_steps_of db u d"
    using assms
    by (cases "find_progress db uid dname")
      (auto simp: find_or_insert_progress_new find_or_insert_progress_found
        completed_steps_of_def find_progress_def find_one_append find_one_Nil find_one_Cons
        split: option.splits if_splits)
  show "scores_of db1 u d = scores_of db u d"
    using assms
    by (cases "find_progress db uid dname")
      (auto simp: find_or_insert_progress_new find_or_insert_progress_found
        scores_of_def find_progress_def find_one_append find_one_Nil find_one_Cons
        split: option.splits if_splits)
  show "user db1 = user db" "roadmap db1 = roadmap db" "assessmentresult db1 = assessmentresult db"
    using assms
    by (cases "find_progress db uid dname";
        auto simp: find_or_insert_progress_new find_or_insert_progress_found)+
qed

lemma submit_assessment_found:
  assumes "find_step db (SubmitAssessment.domain payload) (SubmitAssessment.step_order payload)
             = Some step"
    and "find_or_insert_progress db (SubmitAssessment.user_id payload)
           (SubmitAssessment.domain payload) = (db1, prog)"
  shows "submit_assessment db payload =
     (if SubmitAssessment.step_order payload > 1
         \<and> SubmitAssessment.step_order payload - 1 \<notin> set (completed_steps prog)
      then (db1, Inl (HTTPException 403 ''Complete previous step first''))
      else
        let correct_indexes = map answerIndex (questions step);
            scr = score_of (answers payload) correct_indexes;
            tot = int (length correct_indexes);
            pss = passed_of scr tot;
            result = \<lparr>AssessmentResult.mongo_id =
                        Some (new_ObjectId (map AssessmentResult.mongo_id (assessmentresult db1))),
                      user_id = SubmitAssessment.user_id payload,
                      domain = SubmitAssessment.domain payload,
                      step_order = SubmitAssessment.step_order payload,
                      score = scr, total = tot, passed = pss\<rparr>;
            db2 = db1\<lparr>assessmentresult := assessmentresult db1 @ [result]\<rparr>;
            db3 = (if pss then
                     record_pass db2 (SubmitAssessment.user_id payload)
                       (SubmitAssessment.domain payload)
                       (SubmitAssessment.step_order payload) scr
                   else db2)
        in (db3, Inr (result, if pss then ''Passed'' else ''Failed'')))"
proof -
  from assms(1) obtain rm where
    rm: "find_one (\<lambda>d. roadmap_doc.domain d = SubmitAssessment.domain payload) (roadmap db) = Some rm"
    and st: "find_one (\<lambda>s. order s = SubmitAssessment.step_order payload) (steps rm) = Some step"
    by (auto simp: find_step_def split: option.splits)
  show ?thesis
    unfolding submit_assessment_def by (simp add: rm st assms(2))
qed

subsection \<open>Claims about the gate and the stored progress\<close>

lemma find_step_order:
  "find_step db dname n = Some step \<Longrightarrow> order step = n"
  by (auto simp: find_step_def split: option.splits dest: find_one_Some_D)

text \<open>
  Claim C3.  The submission is for a step that the roadmap of the domain has (lines 261 to
  267 resolve it before the gate; its order \<open>N\<close> is the submitted one).  If \<open>N > 1\<close> and
  \<open>N - 1\<close> is not among the completed steps of the user's progress record for the domain
  (none when no record is stored), the submission fails with status 403, a ForbiddenError,
  whatever the answers are, and nothing is graded: no result is logged and the completed
  steps and scores stay as they were.  Orders start at 1; a step of such an order is
  unlocked, that is its submission is graded, exactly when its order is 1 or the preceding
  order is among the completed steps.
\<close>

theorem gate_blocks_locked_step:
  assumes "find_step db (SubmitAssessment.domain payload) (SubmitAssessment.step_order payload)
             = Some step"
  shows "(1 < SubmitAssessment.step_order payload
          \<and> SubmitAssessment.step_order payload - 1
              \<notin> set (completed_steps_of db (SubmitAssessment.user_id payload)
                       (SubmitAssessment.domain payload))
          \<longrightarrow> submit_assessment db payload
                = (fst (find_or_insert_progress db (SubmitAssessment.user_id payload)
                          (SubmitAssessment.domain payload)),
                   Inl (HTTPException 403 ''Complete previous step first''))
              \<and> error_kind_of (HTTPException 403 ''Complete previous step first'') = ForbiddenError
              \<and> assessmentresult (fst (submit_assessment db payload)) = assessmentresult db
              \<and> completed_steps_of (fst (submit_assessment db payload)) u d
                  = completed_steps_of db u d
              \<and> scores_of (fst (submit_assessment db payload)) u d = scores_of db u d)
         \<and> (1 \<le> order step
             \<longrightarrow> (\<exists>db' r. submit_assessment db payload = (db', Inr r))
                 = (order step = 1
                    \<or> order step - 1
                        \<in> set (completed_steps_of db (SubmitAssessment.user_id payload)
                                 (SubmitAssessment.domain payload))))"
proof -
  obtain db1 prog where fip:
    "find_or_insert_progress db (SubmitAssessment.user_id payload)
       (SubmitAssessment.domain payload) = (db1, prog)"
    by (cases "find_or_insert_progress db (SubmitAssessment.user_id payload)
                 (SubmitAssessment.domain payload)")
  note props = find_or_insert_progress_props [OF fip]
  note sub = submit_assessment_found [OF assms fip]
  have ord: "order step = SubmitAssessment.step_order payload"
    using assms by (rule find_step_order)
  have kind: "error_kind_of (HTTPException 403 ''Complete previous step first'') = ForbiddenError"
    by (simp add: error_kind_of_def)
  have blocked: "submit_assessment db payload
                   = (db1, Inl (HTTPException 403 ''Complete previous step first''))"
    if "1 < SubmitAssessment.step_order payload"
      "SubmitAssessment.step_order payload - 1
         \<notin> set (completed_steps_of db (SubmitAssessment.user_id payload)
                  (SubmitAssessment.domain payload))"
    using that sub props(2) by simp
  have graded: "(\<exists>db' r. submit_assessment db payload = (db', Inr r))
      = (SubmitAssessment.step_order payload \<le> 1
         \<or> SubmitAssessment.step_order payload - 1
             \<in> set (completed_steps_of db (SubmitAssessment.user_id payload)
                      (SubmitAssessment.domain payload)))"
    using sub props(2) by (auto simp: Let_def)
  have unlocked: "(\<exists>db' r. submit_assessment db payload = (db', Inr r))
      = (order step = 1
         \<or> order step - 1
             \<in> set (completed_steps_of db (SubmitAssessment.user_id payload)
                      (SubmitAssessment.domain payload)))"
    if "1 \<le> order step"
    using that graded ord by auto
  show ?thesis
    using blocked unlocked kind props(4,5,8) fip by auto
qed

lemma find_step_demo_single:
  "find_step demo_db (SubmitAssessment.domain single_payload)
     (SubmitAssessment.step_order single_payload) = Some single_step"
  by (simp add: find_step_def demo_db_def single_payload_def find_one_Cons
      quiz_step_def single_step_def)

lemma find_step_demo_quiz:
  "find_step demo_db (SubmitAssessment.domain quiz_payload)
     (SubmitAssessment.step_order quiz_payload) = Some quiz_step"
  by (simp add: find_step_def demo_db_def quiz_payload_def find_one_Cons quiz_step_def)

text \<open>
  Step 2 before step 1 is completed is refused; step 1 is graded.
\<close>

theorem gate_blocks_locked_step_witness:
  "find_step demo_db (SubmitAssessment.domain single_payload)
     (SubmitAssessment.step_order single_payload) = Some single_step
   \<and> 1 < SubmitAssessment.step_order single_payload
   \<and> SubmitAssessment.step_order single_payload - 1
       \<notin> set (completed_steps_of demo_db (SubmitAssessment.user_id single_payload)
                (SubmitAssessment.domain single_payload))
   \<and> submit_assessment demo_db single_payload
       = (fst (find_or_insert_progress demo_db (SubmitAssessment.user_id single_payload)
                 (SubmitAssessment.domain single_payload)),
          Inl (HTTPException 403 ''Complete previous step first''))
   \<and> error_kind_of (HTTPException 403 ''Complete previous step first'') = ForbiddenError
   \<and> assessmentresult (fst (submit_assessment demo_db single_payload)) = assessmentresult demo_db
   \<and> completed_steps_of (fst (submit_assessment demo_db single_payload)) ''u1'' ''demo''
       = completed_steps_of demo_db ''u1'' ''demo''
   \<and> scores_of (fst (submit_assessment demo_db single_payload)) ''u1'' ''demo''
       = scores_of demo_db ''u1'' ''demo''
   \<and> 1 \<le> order single_step
   \<and> (\<exists>db' r. submit_assessment demo_db single_payload = (db', Inr r))
       = (order single_step = 1
          \<or> order single_step - 1
              \<in> set (completed_steps_of demo_db (SubmitAssessment.user_id single_payload)
                       (SubmitAssessment.domain single_payload)))
   \<and> find_step demo_db (SubmitAssessment.domain quiz_payload)
        (SubmitAssessment.step_order quiz_payload) = Some quiz_step
   \<and> 1 \<le> order quiz_step
   \<and> order quiz_step = 1
   \<and> (\<exists>db' r. submit_assessment demo_db quiz_payload = (db', Inr r))"
proof -
  have n: "1 < SubmitAssessment.step_order single_payload"
    by (simp add: single_payload_def)
  have c: "SubmitAssessment.step_order single_payload - 1
       \<notin> set (completed_steps_of demo_db (SubmitAssessment.user_id single_payload)
                (SubmitAssessment.domain single_payload))"
    by (simp add: completed_steps_of_def find_progress_def demo_db_def find_one_Nil)
  have o2: "1 \<le> order single_step" by (simp add: single_step_def)
  have o1: "1 \<le> order quiz_step" "order quiz_step = 1" by (simp_all add: quiz_step_def)
  from gate_blocks_locked_step [OF find_step_demo_single, of "''u1''" "''demo''"]
    gate_blocks_locked_step [OF find_step_demo_quiz, of "''u1''" "''demo''"]
    find_step_demo_single find_step_demo_quiz n c o1 o2
  show ?thesis by blast
qed

lemma record_pass_fields:
  "assessmentresult (record_pass db uid dname n scr) = assessmentresult db"
  "user (record_pass db uid dname n scr) = user db"
  "roadmap (record_pass db uid dname n scr) = roadmap db"
  by (simp_all add: record_pass_def Let_def)

lemma record_pass_completed:
  assumes "find_progress db uid dname = Some p"
  shows "completed_steps_of (record_pass db uid dname n scr) uid dname
           = add_to_set n (completed_steps p)"
proof -
  let ?flt = "\<lambda>p. Progress.user_id p = uid \<and> Progress.domain p = dname"
  let ?upd = "\<lambda>p. p\<lparr>completed_steps := add_to_set n (completed_steps p),
                      scores := AList.update (str_int n) scr (scores p)\<rparr>"
  have "find_one ?flt (update_one ?flt ?upd (progress db)) = map_option ?upd (find_one ?flt (progress db))"
    by (rule find_one_update_one) simp
  then show ?thesis
    using assms by (simp add: record_pass_def completed_steps_of_def find_progress_def Let_def)
qed

lemma completed_steps_of_cong:
  "progress a = progress b \<Longrightarrow> completed_steps_of a u d = completed_steps_of b u d"
  by (simp add: completed_steps_of_def find_progress_def)

lemma scores_of_cong:
  "progress a = progress b \<Longrightarrow> scores_of a u d = scores_of b u d"
  by (simp add: scores_of_def find_progress_def)

lemma find_progress_cong:
  "progress a = progress b \<Longrightarrow> find_progress a u d = find_progress b u d"
  by (simp add: find_progress_def)

lemma set_add_to_set: "set (add_to_set n cs) = insert n (set cs)"
  by (auto simp: add_to_set_def)

lemma count_list_pos: "n \<in> set cs \<Longrightarrow> 0 < count_list cs n"
  by (induction cs) auto

lemma count_list_add_to_set: "count_list (add_to_set n cs) n = max 1 (count_list cs n)"
proof (cases "n \<in> set cs")
  case True
  then have "0 < count_list cs n" by (rule count_list_pos)
  with True show ?thesis by (simp add: add_to_set_def)
next
  case False
  then have "count_list cs n = 0" by (simp add: count_list_0_iff)
  with False show ?thesis by (simp add: add_to_set_def)
qed

lemma not_passed_of_0_4: "\<not> passed_of 0 4"
  by (simp add: float_eval)

lemma score_of_wrong: "score_of [2, 2] [Some 0, Some 1, Some 0, Some 2] = 0"
  by (simp add: score_of_def enumerate_eq_zip upt_rec)

lemma demo_submit_wrong:
  "submit_assessment demo_db wrong_payload = (demo_db_failed, Inr (wrong_result, ''Failed''))"
  by (simp add: submit_assessment_def demo_db_def wrong_payload_def quiz_step_def single_step_def
      find_one_def find_or_insert_progress_def new_ObjectId_def Let_def score_of_wrong
      not_passed_of_0_4 demo_db_failed_def wrong_result_def)

lemma demo_submit_again:
  "submit_assessment demo_db_graded quiz_payload
     = (demo_db_graded_again, Inr (quiz_result_again, ''Passed''))"
  by (simp add: submit_assessment_def demo_db_graded_def demo_db_def quiz_payload_def
      quiz_step_def single_step_def quiz_result_def
      find_one_def find_or_insert_progress_def new_ObjectId_def Let_def score_of_quiz
      passed_of_3_4 record_pass_def add_to_set_def str_int_def str_nat_digit digit_char_def
      demo_db_graded_again_def quiz_result_again_def)

text \<open>
  Claim C4.  For every graded submission: exactly one record, the returned result, is appended
  to the log of results; a failing submission leaves the completed steps and the scores of
  every progress record as they were; a passing submission adds the step order to the
  completed steps of the user's record only if it is not there yet, so the order occurs as
  often as before and at least once: exactly once where it occurred at most once, however
  often the step is passed.
\<close>

theorem submission_logged_and_progress_set:
  assumes "submit_assessment db payload = (db', Inr (res, msg))"
  shows "assessmentresult db' = assessmentresult db @ [res]
    \<and> (\<not> passed res \<longrightarrow>
          completed_steps_of db' u d = completed_steps_of db u d
          \<and> scores_of db' u d = scores_of db u d)
    \<and> (passed res \<longrightarrow>
          completed_steps_of db' (SubmitAssessment.user_id payload) (SubmitAssessment.domain payload)
            = add_to_set (SubmitAssessment.step_order payload)
                (completed_steps_of db (SubmitAssessment.user_id payload)
                   (SubmitAssessment.domain payload))
          \<and> count_list
               (completed_steps_of db' (SubmitAssessment.user_id payload)
                  (SubmitAssessment.domain payload))
               (SubmitAssessment.step_order payload)
             = max 1 (count_list
                        (completed_steps_of db (SubmitAssessment.user_id payload)
                           (SubmitAssessment.domain payload))
                        (SubmitAssessment.step_order payload)))"
proof -
  from assms obtain db1 prog where
    fip: "find_or_insert_progress db (SubmitAssessment.user_id payload)
            (SubmitAssessment.domain payload) = (db1, prog)"
    and db': "db' = (if passed res then
              record_pass (db1\<lparr>assessmentresult := assessmentresult db1 @ [res]\<rparr>)
                (SubmitAssessment.user_id payload) (SubmitAssessment.domain payload)
                (SubmitAssessment.step_order payload) (score res)
            else db1\<lparr>assessmentresult := assessmentresult db1 @ [res]\<rparr>)"
    by (rule submit_assessment_graded) (rule that)
  note props = find_or_insert_progress_props [OF fip]
  let ?db2 = "db1\<lparr>assessmentresult := assessmentresult db1 @ [res]\<rparr>"
  have log: "assessmentresult db' = assessmentresult db @ [res]"
    using db' props(8) by (simp add: record_pass_fields)
  have failing: "completed_steps_of db' u d = completed_steps_of db u d
                 \<and> scores_of db' u d = scores_of db u d" if "\<not> passed res"
  proof -
    from that db' have eq: "progress db' = progress db1" by simp
    have "completed_steps_of db' u d = completed_steps_of db1 u d"
      using eq by (rule completed_steps_of_cong)
    moreover have "scores_of db' u d = scores_of db1 u d"
      using eq by (rule scores_of_cong)
    ultimately show ?thesis
      using props(4,5) by simp
  qed
  have passing: "completed_steps_of db' (SubmitAssessment.user_id payload)
        (SubmitAssessment.domain payload)
      = add_to_set (SubmitAssessment.step_order payload)
          (completed_steps_of db (SubmitAssessment.user_id payload)
             (SubmitAssessment.domain payload))" if "passed res"
  proof -
    have "find_progress ?db2 (SubmitAssessment.user_id payload) (SubmitAssessment.domain payload)
            = Some prog"
      using props(1) by (simp add: find_progress_def)
    then show ?thesis
      using that db' props(2) by (simp add: record_pass_completed)
  qed
  show ?thesis
    using log failing passing by (simp add: count_list_add_to_set)
qed

theorem submission_logged_and_progress_set_witness:
  "submit_assessment demo_db wrong_payload = (demo_db_failed, Inr (wrong_result, ''Failed''))
   \<and> \<not> passed wrong_result
   \<and> assessmentresult demo_db_failed = assessmentresult demo_db @ [wrong_result]
   \<and> completed_steps_of demo_db_failed ''u1'' ''demo'' = completed_steps_of demo_db ''u1'' ''demo''
   \<and> scores_of demo_db_failed ''u1'' ''demo'' = scores_of demo_db ''u1'' ''demo''
   \<and> submit_assessment demo_db_graded quiz_payload
       = (demo_db_graded_again, Inr (quiz_result_again, ''Passed''))
   \<and> passed quiz_result_again
   \<and> assessmentresult demo_db_graded_again = assessmentresult demo_db_graded @ [quiz_result_again]
   \<and> completed_steps_of demo_db_graded_again (SubmitAssessment.user_id quiz_payload)
        (SubmitAssessment.domain quiz_payload)
       = add_to_set (SubmitAssessment.step_order quiz_payload)
           (completed_steps_of demo_db_graded (SubmitAssessment.user_id quiz_payload)
              (SubmitAssessment.domain quiz_payload))
   \<and> count_list
        (completed_steps_of demo_db_graded_again (SubmitAssessment.user_id quiz_payload)
           (SubmitAssessment.domain quiz_payload))
        (SubmitAssessment.step_order quiz_payload)
       = max 1 (count_list
                  (completed_steps_of demo_db_graded (SubmitAssessment.user_id quiz_payload)
                     (SubmitAssessment.domain quiz_payload))
                  (SubmitAssessment.step_order quiz_payload))
   \<and> completed_steps_of demo_db_graded_again ''u1'' ''demo'' = [1]"
proof -
  have f: "\<not> passed wrong_result" by (simp add: wrong_result_def)
  have p: "passed quiz_result_again" by (simp add: quiz_result_again_def)
  have c: "completed_steps_of demo_db_graded_again ''u1'' ''demo'' = [1]"
    by (simp add: completed_steps_of_def find_progress_def demo_db_graded_again_def
        demo_db_graded_def find_one_Cons)
  from submission_logged_and_progress_set [OF demo_submit_wrong, of "''u1''" "''demo''"]
    submission_logged_and_progress_set [OF demo_submit_again]
    demo_submit_wrong demo_submit_again f p c
  show ?thesis by blast
qed

text \<open>
  Claim C9.  Fetching progress returns the stored record of the user and domain when there
  is one, and leaves the store as it is.  When there is none, it appends a record for the
  user and domain with no completed steps and no scores, and returns that record.  A second
  fetch finds the record of the first: it returns the same response and changes nothing.
\<close>

theorem get_progress_reads_or_creates:
  "(case find_progress db uid dname of
      Some p \<Rightarrow> get_progress db uid dname = (db, to_str_id_progress p)
    | None \<Rightarrow>
        (\<exists>new. get_progress db uid dname
                  = (db\<lparr>progress := progress db @ [new]\<rparr>, to_str_id_progress new)
           \<and> Progress.user_id new = uid \<and> Progress.domain new = dname
           \<and> completed_steps new = [] \<and> scores new = []
           \<and> completed_steps (snd (get_progress db uid dname)) = []
           \<and> scores (snd (get_progress db uid dname)) = []
           \<and> find_progress (db\<lparr>progress := progress db @ [new]\<rparr>) uid dname = Some new))
   \<and> get_progress (fst (get_progress db uid dname)) uid dname = get_progress db uid dname"
proof -
  obtain db1 prog where fip: "find_or_insert_progress db uid dname = (db1, prog)"
    by (cases "find_or_insert_progress db uid dname")
  have again: "find_or_insert_progress db1 uid dname = (db1, prog)"
    using find_or_insert_progress_props(1) [OF fip] by (rule find_or_insert_progress_found)
  have twice: "get_progress (fst (get_progress db uid dname)) uid dname = get_progress db uid dname"
    by (simp add: get_progress_def fip again)
  show ?thesis
  proof (cases "find_progress db uid dname")
    case None
    define new where "new =
      \<lparr>Progress.mongo_id = Some (new_ObjectId (map Progress.mongo_id (progress db))),
       str_id = None, user_id = uid, domain = dname, completed_steps = [], scores = []\<rparr>"
    have fip': "find_or_insert_progress db uid dname = (db\<lparr>progress := progress db @ [new]\<rparr>, new)"
      using find_or_insert_progress_new [OF None] by (simp add: new_def)
    have g: "get_progress db uid dname
               = (db\<lparr>progress := progress db @ [new]\<rparr>, to_str_id_progress new)"
      by (simp add: get_progress_def fip')
    have f: "find_progress (db\<lparr>progress := progress db @ [new]\<rparr>) uid dname = Some new"
      using fip' by (rule find_or_insert_progress_props(1))
    have "get_progress db uid dname
            = (db\<lparr>progress := progress db @ [new]\<rparr>, to_str_id_progress new)
          \<and> Progress.user_id new = uid \<and> Progress.domain new = dname
          \<and> completed_steps new = [] \<and> scores new = []
          \<and> completed_steps (snd (get_progress db uid dname)) = []
          \<and> scores (snd (get_progress db uid dname)) = []
          \<and> find_progress (db\<lparr>progress := progress db @ [new]\<rparr>) uid dname = Some new"
      using g f by (simp add: new_def to_str_id_progress_def)
    then have "\<exists>new. get_progress db uid dname
                  = (db\<lparr>progress := progress db @ [new]\<rparr>, to_str_id_progress new)
          \<and> Progress.user_id new = uid \<and> Progress.domain new = dname
          \<and> completed_steps new = [] \<and> scores new = []
          \<and> completed_steps (snd (get_progress db uid dname)) = []
          \<and> scores (snd (get_progress db uid dname)) = []
          \<and> find_progress (db\<lparr>progress := progress db @ [new]\<rparr>) uid dname = Some new"
      by (rule exI)
    then show ?thesis
      using None twice by simp
  next
    case (Some p)
    then show ?thesis
      using twice by (simp add: get_progress_def find_or_insert_progress_found)
  qed
qed

lemma find_progress_demo_db: "find_progress demo_db ''u1'' ''demo'' = None"
  by (simp add: find_progress_def demo_db_def find_one_Nil)

theorem get_progress_reads_or_creates_witness:
  "find_progress demo_db ''u1'' ''demo'' = None
   \<and> (\<exists>new. get_progress demo_db ''u1'' ''demo''
               = (demo_db\<lparr>progress := progress demo_db @ [new]\<rparr>, to_str_id_progress new)
         \<and> Progress.user_id new = ''u1'' \<and> Progress.domain new = ''demo''
         \<and> completed_steps new = [] \<and> scores new = []
         \<and> completed_steps (snd (get_progress demo_db ''u1'' ''demo'')) = []
         \<and> scores (snd (get_progress demo_db ''u1'' ''demo'')) = []
         \<and> find_progress (demo_db\<lparr>progress := progress demo_db @ [new]\<rparr>) ''u1'' ''demo''
             = Some new)
   \<and> get_progress (fst (get_progress demo_db ''u1'' ''demo'')) ''u1'' ''demo''
       = get_progress demo_db ''u1'' ''demo''"
  using get_progress_reads_or_creates [of demo_db "''u1''" "''demo''"]
  by (simp add: find_progress_demo_db)

subsection \<open>Claims about users\<close>

text \<open>
  Claim C10.  A profile update whose id is well formed, whose qualification is in the
  allow-list and whose id no stored user has, does not fail: it returns a response whose
  user is null and leaves the store as it was, so still without a record of that id
  (\<^verbatim>\<open>update_one\<close> matches nothing, and lines 219 and 220 return what \<^verbatim>\<open>find_one\<close> gives).
\<close>

theorem update_profile_unknown_user:
  assumes "ObjectId uid = Some oid"
    and "find_one (\<lambda>d. user_doc.mongo_id d = Some oid) (user db) = None"
    and "UpdateProfile.qualification payload \<in> set ALLOWED_QUALIFICATIONS"
  shows "update_profile db uid payload = (db, Inr None)
         \<and> find_one (\<lambda>d. user_doc.mongo_id d = Some oid)
              (user (fst (update_profile db uid payload))) = None"
proof -
  have "update_one (\<lambda>d. user_doc.mongo_id d = Some oid) (set_profile payload) (user db) = user db"
    using assms(2) by (rule update_one_no_match)
  then have "update_profile db uid payload = (db, Inr None)"
    using assms by (simp add: update_profile_def to_str_id_user_def)
  then show ?thesis using assms(2) by simp
qed

lemma ObjectId_carol: "ObjectId carol_id = Some 255"
  by (simp add: ObjectId_def carol_id_def hex_value_def)

theorem update_profile_unknown_user_witness:
  "ObjectId carol_id = Some 255
   \<and> find_one (\<lambda>d. user_doc.mongo_id d = Some 255) (user demo_db) = None
   \<and> UpdateProfile.qualification new_profile \<in> set ALLOWED_QUALIFICATIONS
   \<and> update_profile demo_db carol_id new_profile = (demo_db, Inr None)
   \<and> find_one (\<lambda>d. user_doc.mongo_id d = Some 255)
        (user (fst (update_profile demo_db carol_id new_profile))) = None"
proof -
  have f: "find_one (\<lambda>d. user_doc.mongo_id d = Some 255) (user demo_db) = None"
    by (simp add: demo_db_def alice_def find_one_Cons find_one_Nil)
  have q: "UpdateProfile.qualification new_profile \<in> set ALLOWED_QUALIFICATIONS"
    by (simp add: new_profile_def ALLOWED_QUALIFICATIONS_def)
  from update_profile_unknown_user [OF ObjectId_carol f q] ObjectId_carol f q
  show ?thesis by blast
qed



lemma hex_nat_digit: "n < 16 \<Longrightarrow> hex_nat n = [digit_char n]"
  by (subst hex_nat.simps) simp

lemma str_ObjectId_digit:
  "n < 16 \<Longrightarrow> str_ObjectId n = ''00000000000000000000000'' @ [digit_char n]"
  by (simp add: str_ObjectId_def hex_nat_digit eval_nat_numeral)


lemma demo_register_dave:
  "register rev demo_db dave
     = (demo_db, Inl (HTTPException 403 ''Only IT-related students can register''))"
  by (simp add: register_def dave_def ALLOWED_QUALIFICATIONS_def)

lemma demo_register_bob:
  "register rev demo_db bob = (demo_db\<lparr>user := [alice, bob_doc]\<rparr>, Inr (Some bob_response))"
  by (simp add: register_def bob_def ALLOWED_QUALIFICATIONS_def demo_db_def alice_def
      find_one_Cons find_one_Nil Let_def new_ObjectId_def hash_password_def bob_doc_def
      to_str_id_user_def without_password_hash_def str_ObjectId_digit
      digit_char_def bob_response_def)


lemma find_one_distinct:
  "distinct (map f xs) \<Longrightarrow> x \<in> set xs \<Longrightarrow> find_one (\<lambda>d. f d = f x) xs = Some x"
  by (induction xs) (auto simp: find_one_Cons)

text \<open>The handler of lines 160 to 168, on a validated body.\<close>

lemma login_handler_cases:
  "((\<exists>r. login sha db payload = Inr r)
      = (\<exists>usr. find_one (\<lambda>d. user_doc.email d = LoginRequest.email payload) (user db) = Some usr
               \<and> user_doc.password_hash usr = Some (hash_password sha (password payload))))
   \<and> ((\<exists>r. login sha db payload = Inr r)
       \<or> login sha db payload = Inl (HTTPException 401 ''Invalid credentials''))
   \<and> error_kind_of (HTTPException 401 ''Invalid credentials'') = AuthError
   \<and> (distinct (map user_doc.email (user db))
       \<longrightarrow> (\<exists>r. login sha db payload = Inr r)
           = (\<exists>usr. usr \<in> set (user db)
                \<and> user_doc.email usr = LoginRequest.email payload
                \<and> user_doc.password_hash usr = Some (hash_password sha (password payload))))"
proof -
  let ?found = "find_one (\<lambda>d. user_doc.email d = LoginRequest.email payload) (user db)"
  have iff: "(\<exists>r. login sha db payload = Inr r)
      = (\<exists>usr. ?found = Some usr
               \<and> user_doc.password_hash usr = Some (hash_password sha (password payload)))"
    by (cases ?found) (simp_all add: login_def)
  have alt: "(\<exists>r. login sha db payload = Inr r)
       \<or> login sha db payload = Inl (HTTPException 401 ''Invalid credentials'')"
    by (cases ?found) (simp_all add: login_def)
  have kind: "error_kind_of (HTTPException 401 ''Invalid credentials'') = AuthError"
    by (simp add: error_kind_of_def)
  have uniq: "(\<exists>usr. ?found = Some usr
               \<and> user_doc.password_hash usr = Some (hash_password sha (password payload)))
      = (\<exists>usr. usr \<in> set (user db)
                \<and> user_doc.email usr = LoginRequest.email payload
                \<and> user_doc.password_hash usr = Some (hash_password sha (password payload)))"
    if dist: "distinct (map user_doc.email (user db))"
  proof
    assume "\<exists>usr. ?found = Some usr
               \<and> user_doc.password_hash usr = Some (hash_password sha (password payload))"
    then show "\<exists>usr. usr \<in> set (user db)
                \<and> user_doc.email usr = LoginRequest.email payload
                \<and> user_doc.password_hash usr = Some (hash_password sha (password payload))"
      using find_one_Some_D by fastforce
  next
    assume "\<exists>usr. usr \<in> set (user db)
                \<and> user_doc.email usr = LoginRequest.email payload
                \<and> user_doc.password_hash usr = Some (hash_password sha (password payload))"
    then obtain usr where u: "usr \<in> set (user db)"
      "user_doc.email usr = LoginRequest.email payload"
      "user_doc.password_hash usr = Some (hash_password sha (password payload))" by blast
    from find_one_distinct [OF dist u(1)] u(2) have "?found = Some usr" by simp
    with u(3) show "\<exists>usr. ?found = Some usr
               \<and> user_doc.password_hash usr = Some (hash_password sha (password payload))"
      by blast
  qed
  show ?thesis
    using iff alt kind uniq by simp
qed

lemma demo_login_alice: "login rev demo_db alice_login = Inr (Some alice_response)"
  by (simp add: login_def demo_db_def alice_def alice_login_def find_one_Cons hash_password_def
      to_str_id_user_def without_password_hash_def str_ObjectId_digit
      digit_char_def alice_response_def)

lemma demo_login_wrong:
  "login rev demo_db alice_wrong_login = Inl (HTTPException 401 ''Invalid credentials'')"
  by (simp add: login_def demo_db_def alice_def alice_wrong_login_def find_one_Cons
      hash_password_def)

lemma demo_login_nobody:
  "login rev demo_db nobody_login = Inl (HTTPException 401 ''Invalid credentials'')"
  by (simp add: login_def demo_db_def alice_def nobody_login_def find_one_Cons find_one_Nil)

lemma validate_LoginRequest_ok:
  "EmailStr (LoginRequest.email body) = Some addr \<Longrightarrow> 6 \<le> length (password body) \<Longrightarrow>
   validate_LoginRequest EmailStr body = Inr (body\<lparr>LoginRequest.email := addr\<rparr>)"
  by (simp add: validate_LoginRequest_def)

lemma validate_LoginRequest_refused:
  "EmailStr (LoginRequest.email body) = None \<or> length (password body) < 6 \<Longrightarrow>
   validate_LoginRequest EmailStr body = Inl (HTTPException 422 ''Unprocessable Entity'')"
  by (auto simp: validate_LoginRequest_def split: option.splits)

text \<open>
  Claim C6, amended.  For every email that the validation accepts and every password of at
  least 6 characters, login succeeds exactly when a user is found under the (normalised)
  email and the hash of the password is the digest stored with that user; otherwise it
  fails, and in both ways of failing with the same exception: status 401 (an AuthError) and
  the detail \<^verbatim>\<open>Invalid credentials\<close>.  The user found is the first with the email; where
  emails are unique, as registration keeps them, it is the user with the email.  A body
  whose email is refused or whose password has fewer than 6 characters is answered with
  status 422 before any user is looked up.
\<close>

theorem login_iff_digest_matches:
  "(EmailStr (LoginRequest.email body) = Some addr \<and> 6 \<le> length (password body)
      \<longrightarrow> (\<exists>r. auth_login EmailStr sha db body = Inr r)
            = (\<exists>usr. find_user_by_email db addr = Some usr
                 \<and> user_doc.password_hash usr = Some (hash_password sha (password body)))
          \<and> ((\<exists>r. auth_login EmailStr sha db body = Inr r)
              \<or> auth_login EmailStr sha db body = Inl (HTTPException 401 ''Invalid credentials''))
          \<and> (distinct (map user_doc.email (user db))
              \<longrightarrow> (\<exists>r. auth_login EmailStr sha db body = Inr r)
                  = (\<exists>usr. usr \<in> set (user db)
                       \<and> user_doc.email usr = addr
                       \<and> user_doc.password_hash usr = Some (hash_password sha (password body)))))
   \<and> error_kind_of (HTTPException 401 ''Invalid credentials'') = AuthError
   \<and> (EmailStr (LoginRequest.email body) = None \<or> length (password body) < 6
       \<longrightarrow> auth_login EmailStr sha db body = Inl (HTTPException 422 ''Unprocessable Entity''))"
proof (intro conjI impI)
  assume ok: "EmailStr (LoginRequest.email body) = Some addr \<and> 6 \<le> length (password body)"
  then have v: "validate_LoginRequest EmailStr body = Inr (body\<lparr>LoginRequest.email := addr\<rparr>)"
    by (simp add: validate_LoginRequest_ok)
  then have run: "auth_login EmailStr sha db body = login sha db (body\<lparr>LoginRequest.email := addr\<rparr>)"
    by (simp add: auth_login_def)
  note h = login_handler_cases [of sha db "body\<lparr>LoginRequest.email := addr\<rparr>"]
  show "(\<exists>r. auth_login EmailStr sha db body = Inr r)
            = (\<exists>usr. find_user_by_email db addr = Some usr
                 \<and> user_doc.password_hash usr = Some (hash_password sha (password body)))"
    using h by (auto simp: run find_user_by_email_def)
  show "(\<exists>r. auth_login EmailStr sha db body = Inr r)
        \<or> auth_login EmailStr sha db body = Inl (HTTPException 401 ''Invalid credentials'')"
    using h by (auto simp: run)
  show "(\<exists>r. auth_login EmailStr sha db body = Inr r)
          = (\<exists>usr. usr \<in> set (user db)
               \<and> user_doc.email usr = addr
               \<and> user_doc.password_hash usr = Some (hash_password sha (password body)))"
    if "distinct (map user_doc.email (user db))"
    using h that by (auto simp: run)
next
  show "error_kind_of (HTTPException 401 ''Invalid credentials'') = AuthError"
    by (simp add: error_kind_of_def)
next
  assume "EmailStr (LoginRequest.email body) = None \<or> length (password body) < 6"
  then show "auth_login EmailStr sha db body = Inl (HTTPException 422 ''Unprocessable Entity'')"
    by (simp add: auth_login_def validate_LoginRequest_refused)
qed

lemma demo_register_eve:
  "register rev demo_db eve = (demo_db_eve, Inr (Some eve_response))"
  by (simp add: register_def eve_def ALLOWED_QUALIFICATIONS_def demo_db_def alice_def
      find_one_Cons find_one_Nil Let_def new_ObjectId_def hash_password_def eve_doc_def
      to_str_id_user_def without_password_hash_def str_ObjectId_digit
      digit_char_def eve_response_def demo_db_eve_def)

lemma demo_login_eve:
  "auth_login Some rev demo_db_eve eve_login = Inl (HTTPException 422 ''Unprocessable Entity'')"
  by (simp add: auth_login_def validate_LoginRequest_def eve_login_def)

lemma demo_find_eve:
  "find_user_by_email demo_db_eve (LoginRequest.email eve_login) = Some eve_doc"
  by (simp add: find_user_by_email_def demo_db_eve_def demo_db_def alice_def eve_doc_def
      eve_login_def find_one_Cons)

lemma demo_auth_login:
  "auth_login Some rev demo_db alice_login = Inr (Some alice_response)"
  "auth_login Some rev demo_db alice_wrong_login = Inl (HTTPException 401 ''Invalid credentials'')"
  "auth_login Some rev demo_db nobody_login = Inl (HTTPException 401 ''Invalid credentials'')"
  by (simp_all add: auth_login_def validate_LoginRequest_def demo_login_alice demo_login_wrong
      demo_login_nobody)
    (simp_all add: alice_login_def alice_wrong_login_def nobody_login_def)

text \<open>
  A right password, a wrong password, an unknown email, and a password of three characters.
\<close>

theorem login_iff_digest_matches_witness:
  "Some (LoginRequest.email alice_login) = Some ''alice@example.com''
   \<and> 6 \<le> length (password alice_login)
   \<and> distinct (map user_doc.email (user demo_db))
   \<and> auth_login Some rev demo_db alice_login = Inr (Some alice_response)
   \<and> (\<exists>usr. usr \<in> set (user demo_db)
         \<and> user_doc.email usr = ''alice@example.com''
         \<and> user_doc.password_hash usr = Some (hash_password rev (password alice_login)))
   \<and> 6 \<le> length (password alice_wrong_login)
   \<and> auth_login Some rev demo_db alice_wrong_login
       = Inl (HTTPException 401 ''Invalid credentials'')
   \<and> \<not> (\<exists>usr. usr \<in> set (user demo_db)
         \<and> user_doc.email usr = ''alice@example.com''
         \<and> user_doc.password_hash usr = Some (hash_password rev (password alice_wrong_login)))
   \<and> 6 \<le> length (password nobody_login)
   \<and> auth_login Some rev demo_db nobody_login = Inl (HTTPException 401 ''Invalid credentials'')
   \<and> \<not> (\<exists>usr. usr \<in> set (user demo_db)
         \<and> user_doc.email usr = ''nobody@example.com''
         \<and> user_doc.password_hash usr = Some (hash_password rev (password nobody_login)))
   \<and> error_kind_of (HTTPException 401 ''Invalid credentials'') = AuthError
   \<and> length (password eve_login) < 6
   \<and> auth_login Some rev demo_db_eve eve_login = Inl (HTTPException 422 ''Unprocessable Entity'')"
proof -
  have d: "distinct (map user_doc.email (user demo_db))"
    by (simp add: demo_db_def)
  have e: "LoginRequest.email alice_login = ''alice@example.com''"
    "LoginRequest.email alice_wrong_login = ''alice@example.com''"
    "LoginRequest.email nobody_login = ''nobody@example.com''"
    by (simp_all add: alice_login_def alice_wrong_login_def nobody_login_def)
  have l: "6 \<le> length (password alice_login)" "6 \<le> length (password alice_wrong_login)"
    "6 \<le> length (password nobody_login)" "length (password eve_login) < 6"
    by (simp_all add: alice_login_def alice_wrong_login_def nobody_login_def eve_login_def)
  from login_iff_digest_matches [of Some alice_login "''alice@example.com''" rev demo_db]
    login_iff_digest_matches [of Some alice_wrong_login "''alice@example.com''" rev demo_db]
    login_iff_digest_matches [of Some nobody_login "''nobody@example.com''" rev demo_db]
    login_iff_digest_matches [of Some eve_login "''eve@example.com''" rev demo_db_eve]
    d e l demo_auth_login
  show ?thesis by simp
qed

text \<open>
  Claim C6 as stated, for every email and password, fails: registration takes a password of
  any length (schemas.py, line 30), so a user can be stored whose password has three
  characters; a login with that email and that password finds the user and the digest
  matches, but the body is refused with status 422.
\<close>

theorem login_iff_digest_matches_counterexample:
  "register rev demo_db eve = (demo_db_eve, Inr (Some eve_response))
   \<and> find_user_by_email demo_db_eve (LoginRequest.email eve_login) = Some eve_doc
   \<and> user_doc.password_hash eve_doc = Some (hash_password rev (password eve_login))
   \<and> auth_login Some rev demo_db_eve eve_login = Inl (HTTPException 422 ''Unprocessable Entity'')"
proof -
  have "user_doc.password_hash eve_doc = Some (hash_password rev (password eve_login))"
    by (simp add: eve_doc_def eve_login_def hash_password_def)
  with demo_register_eve demo_find_eve demo_login_eve show ?thesis by simp
qed

lemma to_str_id_user_digest:
  "to_str_id_user (map_option without_password_hash x) = Some u \<Longrightarrow> user_doc.password_hash u = None"
  by (cases x) (auto simp: to_str_id_user_def without_password_hash_def split: option.splits)

text \<open>
  Claim C7.  Whenever \<^verbatim>\<open>register\<close>, \<^verbatim>\<open>login\<close>, \<^verbatim>\<open>get_profile\<close> or \<^verbatim>\<open>update_profile\<close> returns a
  user record, the record has no \<^verbatim>\<open>password_hash\<close> key.
\<close>

theorem responses_without_digest:
  "(register sha db usr = (db1, Inr (Some u1)) \<longrightarrow> user_doc.password_hash u1 = None)
   \<and> (login sha db lreq = Inr (Some u2) \<longrightarrow> user_doc.password_hash u2 = None)
   \<and> (get_profile db uid = Inr (Some u3) \<longrightarrow> user_doc.password_hash u3 = None)
   \<and> (update_profile db uid upd = (db4, Inr (Some u4)) \<longrightarrow> user_doc.password_hash u4 = None)"
proof (intro conjI impI)
  assume "register sha db usr = (db1, Inr (Some u1))"
  then show "user_doc.password_hash u1 = None"
    by (auto simp: register_def Let_def split: if_splits dest: to_str_id_user_digest)
next
  assume "login sha db lreq = Inr (Some u2)"
  then have "\<exists>x. to_str_id_user (map_option without_password_hash x) = Some u2"
    by (auto simp: login_def split: option.splits if_splits intro: exI [of _ "Some _"])
  then show "user_doc.password_hash u2 = None"
    by (auto dest: to_str_id_user_digest)
next
  assume "get_profile db uid = Inr (Some u3)"
  then have "\<exists>x. to_str_id_user (map_option without_password_hash x) = Some u3"
    by (auto simp: get_profile_def split: option.splits intro: exI [of _ "Some _"])
  then show "user_doc.password_hash u3 = None"
    by (auto dest: to_str_id_user_digest)
next
  assume "update_profile db uid upd = (db4, Inr (Some u4))"
  then show "user_doc.password_hash u4 = None"
    by (auto simp: update_profile_def Let_def split: option.splits if_splits
        dest: to_str_id_user_digest)
qed

lemma ObjectId_alice: "ObjectId alice_id = Some 7"
  by (simp add: ObjectId_def alice_id_def hex_value_def)

lemma demo_get_profile: "get_profile demo_db alice_id = Inr (Some alice_response)"
  by (simp add: get_profile_def ObjectId_alice demo_db_def alice_def find_one_Cons
      to_str_id_user_def without_password_hash_def str_ObjectId_digit digit_char_def
      alice_response_def)

lemma demo_update_profile:
  "update_profile demo_db alice_id new_profile
     = (demo_db\<lparr>user := [alice_updated]\<rparr>, Inr (Some carol_response))"
  by (simp add: update_profile_def ObjectId_alice new_profile_def ALLOWED_QUALIFICATIONS_def
      demo_db_def alice_def find_one_Cons set_profile_def Let_def
      to_str_id_user_def without_password_hash_def str_ObjectId_digit digit_char_def
      alice_updated_def carol_response_def)

theorem responses_without_digest_witness:
  "register rev demo_db bob = (demo_db\<lparr>user := [alice, bob_doc]\<rparr>, Inr (Some bob_response))
   \<and> user_doc.password_hash bob_response = None
   \<and> login rev demo_db alice_login = Inr (Some alice_response)
   \<and> get_profile demo_db alice_id = Inr (Some alice_response)
   \<and> user_doc.password_hash alice_response = None
   \<and> update_profile demo_db alice_id new_profile
       = (demo_db\<lparr>user := [alice_updated]\<rparr>, Inr (Some carol_response))
   \<and> user_doc.password_hash carol_response = None
   \<and> user_doc.password_hash alice = Some (rev ''secret1'')"
proof -
  have "user_doc.password_hash alice = Some (rev ''secret1'')"
    by (simp add: alice_def)
  with responses_without_digest [where sha = rev and db = demo_db and usr = bob
      and ?db1.0 = "demo_db\<lparr>user := [alice, bob_doc]\<rparr>" and ?u1.0 = bob_response
      and lreq = alice_login and ?u2.0 = alice_response
      and uid = alice_id and ?u3.0 = alice_response
      and upd = new_profile and ?db4.0 = "demo_db\<lparr>user := [alice_updated]\<rparr>"
      and ?u4.0 = carol_response]
    demo_register_bob demo_login_alice demo_get_profile demo_update_profile
  show ?thesis by blast
qed

subsection \<open>Seeding\<close>

lemma find_one_domain_None:
  "(find_one (\<lambda>d. roadmap_doc.domain d = k) (roadmap db) = None) = (k \<notin> domains_of db)"
  by (auto simp: find_one_None_iff domains_of_def)

lemma seed_items_fields:
  "user (seed_items items db) = user db
   \<and> progress (seed_items items db) = progress db
   \<and> assessmentresult (seed_items items db) = assessmentresult db"
  by (induction items db rule: seed_items.induct) (simp_all add: Let_def)

lemma seed_items_appends:
  "\<exists>new. roadmap (seed_items items db) = roadmap db @ new
         \<and> set (map (\<lambda>r. (roadmap_doc.domain r, steps r)) new) \<subseteq> set items
         \<and> set (map roadmap_doc.domain new) \<inter> domains_of db = {}
         \<and> distinct (map roadmap_doc.domain new)"
proof (induction items db rule: seed_items.induct)
  case (1 db)
  then show ?case by simp
next
  case (2 dname stps items db)
  show ?case
  proof (cases "dname \<in> domains_of db")
    case True
    then have f: "find_one (\<lambda>d. roadmap_doc.domain d = dname) (roadmap db) \<noteq> None"
      by (simp add: find_one_domain_None)
    with 2 obtain new where "roadmap (seed_items items db) = roadmap db @ new"
      "set (map (\<lambda>r. (roadmap_doc.domain r, steps r)) new) \<subseteq> set items"
      "set (map roadmap_doc.domain new) \<inter> domains_of db = {}"
      "distinct (map roadmap_doc.domain new)"
      by (auto simp: Let_def)
    with f show ?thesis by (auto simp: Let_def)
  next
    case False
    then have f: "find_one (\<lambda>d. roadmap_doc.domain d = dname) (roadmap db) = None"
      by (simp add: find_one_domain_None)
    define rec where "rec =
      \<lparr>roadmap_doc.mongo_id = Some (new_ObjectId (map roadmap_doc.mongo_id (roadmap db))),
       domain = dname, steps = stps\<rparr>"
    define db1 where "db1 = db\<lparr>roadmap := roadmap db @ [rec]\<rparr>"
    have step: "seed_items ((dname, stps) # items) db = seed_items items db1"
      using f by (simp add: Let_def db1_def rec_def)
    have dom1: "domains_of db1 = insert dname (domains_of db)"
      by (simp add: db1_def domains_of_def rec_def)
    from 2 f obtain new where new: "roadmap (seed_items items db1) = roadmap db1 @ new"
      "set (map (\<lambda>r. (roadmap_doc.domain r, steps r)) new) \<subseteq> set items"
      "set (map roadmap_doc.domain new) \<inter> domains_of db1 = {}"
      "distinct (map roadmap_doc.domain new)"
      by (auto simp: Let_def db1_def rec_def)
    have "roadmap (seed_items ((dname, stps) # items) db) = roadmap db @ (rec # new)"
      using step new(1) by (simp add: db1_def)
    moreover have "set (map (\<lambda>r. (roadmap_doc.domain r, steps r)) (rec # new))
        \<subseteq> set ((dname, stps) # items)"
      using new(2) by (auto simp: rec_def)
    moreover have "set (map roadmap_doc.domain (rec # new)) \<inter> domains_of db = {}"
      using new(3) False dom1 by (auto simp: rec_def)
    moreover have "distinct (map roadmap_doc.domain (rec # new))"
      using new(3,4) dom1 by (auto simp: rec_def)
    ultimately show ?thesis by blast
  qed
qed

lemma seed_items_mono: "domains_of db \<subseteq> domains_of (seed_items items db)"
  using seed_items_appends [of items db] by (auto simp: domains_of_def)

lemma seed_items_covers: "fst ` set items \<subseteq> domains_of (seed_items items db)"
proof (induction items db rule: seed_items.induct)
  case (1 db)
  then show ?case by simp
next
  case (2 dname stps items db)
  define db1 where "db1 =
    (if find_one (\<lambda>d. roadmap_doc.domain d = dname) (roadmap db) = None then
       db\<lparr>roadmap := roadmap db @
         [\<lparr>roadmap_doc.mongo_id = Some (new_ObjectId (map roadmap_doc.mongo_id (roadmap db))),
           domain = dname, steps = stps\<rparr>]\<rparr>
     else db)"
  have step: "seed_items ((dname, stps) # items) db = seed_items items db1"
    by (simp add: Let_def db1_def)
  have "dname \<in> domains_of db1"
    by (auto simp: db1_def find_one_domain_None domains_of_def)
  then have "dname \<in> domains_of (seed_items items db1)"
    using seed_items_mono by blast
  moreover have "fst ` set items \<subseteq> domains_of (seed_items items db1)"
    using 2 by (simp add: db1_def Let_def)
  ultimately show ?case using step by simp
qed

lemma seed_items_noop: "fst ` set items \<subseteq> domains_of db \<Longrightarrow> seed_items items db = db"
  by (induction items db rule: seed_items.induct) (simp_all add: Let_def find_one_domain_None)

lemma seed_items_idem: "seed_items items (seed_items items db) = seed_items items db"
  by (rule seed_items_noop) (rule seed_items_covers)

lemma seed_items_fresh:
  "distinct (map fst items) \<Longrightarrow> fst ` set items \<inter> domains_of db = {} \<Longrightarrow>
   map (\<lambda>r. (roadmap_doc.domain r, steps r)) (roadmap (seed_items items db))
     = map (\<lambda>r. (roadmap_doc.domain r, steps r)) (roadmap db) @ items"
proof (induction items db rule: seed_items.induct)
  case (1 db)
  then show ?case by simp
next
  case (2 dname stps items db)
  from "2.prems" have f: "find_one (\<lambda>d. roadmap_doc.domain d = dname) (roadmap db) = None"
    by (simp add: find_one_domain_None)
  define db1 where "db1 = db\<lparr>roadmap := roadmap db @
         [\<lparr>roadmap_doc.mongo_id = Some (new_ObjectId (map roadmap_doc.mongo_id (roadmap db))),
           domain = dname, steps = stps\<rparr>]\<rparr>"
  have step: "seed_items ((dname, stps) # items) db = seed_items items db1"
    using f by (simp add: Let_def db1_def)
  have dom1: "domains_of db1 = insert dname (domains_of db)"
    by (simp add: db1_def domains_of_def)
  have "map (\<lambda>r. (roadmap_doc.domain r, steps r)) (roadmap (seed_items items db1))
     = map (\<lambda>r. (roadmap_doc.domain r, steps r)) (roadmap db1) @ items"
    using "2.IH" [of "find_one (\<lambda>d. roadmap_doc.domain d = dname) (roadmap db)"] f "2.prems" dom1
    by (auto simp: db1_def)
  then show ?case using step by (simp add: db1_def)
qed

lemma seed_items_record:
  "seed_items items db = db\<lparr>roadmap := roadmap (seed_items items db)\<rparr>"
  by (rule Database.equality) (simp_all add: seed_items_fields)

lemma distinct_SEED_ROADMAPS: "distinct (map fst SEED_ROADMAPS)"
  by (simp add: SEED_ROADMAPS_def)

lemma seed_empty_db:
  "map (\<lambda>r. (roadmap_doc.domain r, steps r)) (roadmap (seed_items SEED_ROADMAPS empty_db))
     = SEED_ROADMAPS"
  using seed_items_fresh [OF distinct_SEED_ROADMAPS, of empty_db]
  by (simp add: domains_of_def empty_db_def)

subsection \<open>Claim about seeding\<close>

text \<open>
  Claim C8.  Seeding is idempotent on every store (and does nothing without a store).  On a
  store it only appends roadmap records: each appended record is a predefined domain with
  its predefined steps, none is for a domain that had a record, no domain is appended twice,
  and afterwards every predefined domain has a record; the stored roadmaps and the other
  collections are untouched.  From the empty store the roadmaps are exactly the predefined
  ones, one record for each domain, and a second run leaves that store as it is.
\<close>

theorem seeding_idempotent:
  "ensure_roadmaps_seeded (ensure_roadmaps_seeded db) = ensure_roadmaps_seeded db
   \<and> (case db of
         None \<Rightarrow> ensure_roadmaps_seeded db = None
       | Some d \<Rightarrow>
           (\<exists>new. ensure_roadmaps_seeded db = Some (d\<lparr>roadmap := roadmap d @ new\<rparr>)
              \<and> set (map (\<lambda>r. (roadmap_doc.domain r, steps r)) new) \<subseteq> set SEED_ROADMAPS
              \<and> set (map roadmap_doc.domain new) \<inter> domains_of d = {}
              \<and> distinct (map roadmap_doc.domain new)
              \<and> fst ` set SEED_ROADMAPS \<subseteq> domains_of d \<union> set (map roadmap_doc.domain new)))
   \<and> (\<exists>d1. ensure_roadmaps_seeded (Some empty_db) = Some d1
          \<and> ensure_roadmaps_seeded (Some d1) = Some d1
          \<and> map (\<lambda>r. (roadmap_doc.domain r, steps r)) (roadmap d1) = SEED_ROADMAPS
          \<and> distinct (map roadmap_doc.domain (roadmap d1)))"
proof (intro conjI)
  show "ensure_roadmaps_seeded (ensure_roadmaps_seeded db) = ensure_roadmaps_seeded db"
    by (cases db) (simp_all add: ensure_roadmaps_seeded_def seed_items_idem)
next
  show "case db of
         None \<Rightarrow> ensure_roadmaps_seeded db = None
       | Some d \<Rightarrow>
           (\<exists>new. ensure_roadmaps_seeded db = Some (d\<lparr>roadmap := roadmap d @ new\<rparr>)
              \<and> set (map (\<lambda>r. (roadmap_doc.domain r, steps r)) new) \<subseteq> set SEED_ROADMAPS
              \<and> set (map roadmap_doc.domain new) \<inter> domains_of d = {}
              \<and> distinct (map roadmap_doc.domain new)
              \<and> fst ` set SEED_ROADMAPS \<subseteq> domains_of d \<union> set (map roadmap_doc.domain new))"
  proof (cases db)
    case None
    then show ?thesis by (simp add: ensure_roadmaps_seeded_def)
  next
    case (Some d)
    from seed_items_appends [of SEED_ROADMAPS d] obtain new where
      new: "roadmap (seed_items SEED_ROADMAPS d) = roadmap d @ new"
        "set (map (\<lambda>r. (roadmap_doc.domain r, steps r)) new) \<subseteq> set SEED_ROADMAPS"
        "set (map roadmap_doc.domain new) \<inter> domains_of d = {}"
        "distinct (map roadmap_doc.domain new)"
      by blast
    have "seed_items SEED_ROADMAPS d = d\<lparr>roadmap := roadmap d @ new\<rparr>"
      using seed_items_record [of SEED_ROADMAPS d] new(1) by simp
    then have run: "ensure_roadmaps_seeded db = Some (d\<lparr>roadmap := roadmap d @ new\<rparr>)"
      using Some by (simp add: ensure_roadmaps_seeded_def)
    have "fst ` set SEED_ROADMAPS \<subseteq> domains_of (seed_items SEED_ROADMAPS d)"
      by (rule seed_items_covers)
    then have cover: "fst ` set SEED_ROADMAPS \<subseteq> domains_of d \<union> set (map roadmap_doc.domain new)"
      using new(1) by (simp add: domains_of_def)
    from run new(2,3,4) cover
    have "\<exists>new. ensure_roadmaps_seeded db = Some (d\<lparr>roadmap := roadmap d @ new\<rparr>)
              \<and> set (map (\<lambda>r. (roadmap_doc.domain r, steps r)) new) \<subseteq> set SEED_ROADMAPS
              \<and> set (map roadmap_doc.domain new) \<inter> domains_of d = {}
              \<and> distinct (map roadmap_doc.domain new)
              \<and> fst ` set SEED_ROADMAPS \<subseteq> domains_of d \<union> set (map roadmap_doc.domain new)"
      by blast
    then show ?thesis using Some by simp
  qed
next
  let ?d1 = "seed_items SEED_ROADMAPS empty_db"
  have "map roadmap_doc.domain (roadmap ?d1)
          = map fst (map (\<lambda>r. (roadmap_doc.domain r, steps r)) (roadmap ?d1))"
    by (simp add: comp_def)
  then have "distinct (map roadmap_doc.domain (roadmap ?d1))"
    using distinct_SEED_ROADMAPS by (simp only: seed_empty_db)
  then show "\<exists>d1. ensure_roadmaps_seeded (Some empty_db) = Some d1
          \<and> ensure_roadmaps_seeded (Some d1) = Some d1
          \<and> map (\<lambda>r. (roadmap_doc.domain r, steps r)) (roadmap d1) = SEED_ROADMAPS
          \<and> distinct (map roadmap_doc.domain (roadmap d1))"
    by (simp add: ensure_roadmaps_seeded_def seed_items_idem seed_empty_db)
qed

theorem seeding_idempotent_witness:
  "ensure_roadmaps_seeded (ensure_roadmaps_seeded (Some demo_db)) = ensure_roadmaps_seeded (Some demo_db)
   \<and> (\<exists>new. ensure_roadmaps_seeded (Some demo_db)
               = Some (demo_db\<lparr>roadmap := roadmap demo_db @ new\<rparr>)
         \<and> set (map (\<lambda>r. (roadmap_doc.domain r, steps r)) new) \<subseteq> set SEED_ROADMAPS
         \<and> set (map roadmap_doc.domain new) \<inter> domains_of demo_db = {}
         \<and> distinct (map roadmap_doc.domain new)
         \<and> fst ` set SEED_ROADMAPS \<subseteq> domains_of demo_db \<union> set (map roadmap_doc.domain new))
   \<and> ensure_roadmaps_seeded None = None
   \<and> (\<exists>d1. ensure_roadmaps_seeded (Some empty_db) = Some d1
          \<and> ensure_roadmaps_seeded (Some d1) = Some d1
          \<and> map (\<lambda>r. (roadmap_doc.domain r, steps r)) (roadmap d1) = SEED_ROADMAPS
          \<and> distinct (map roadmap_doc.domain (roadmap d1)))"
  using seeding_idempotent [of "Some demo_db"] seeding_idempotent [of None]
  by simp

end
